theory Spec2Isabelle
  imports Main
begin

section \<open>Python values\<close>

text \<open>
  The schema engine of \<^verbatim>\<open>arcaflow_plugin_sdk/schema.py\<close> works on dynamically typed
  Python values: the raw wire data (numbers, strings, lists, dicts) and the typed values
  (instances of host dataclasses) live in one universe.  A dict is an association list in
  insertion order; its keys are the hashable scalars.  An instance of a host dataclass is
  its class name with its fields.  \<open>POpaque\<close> is a value of any other Python type (a float,
  a bound method, ...), of which the engine only ever reads the type name.

  Assumptions of the embedding: strings are ASCII; integers that get printed have at most
  4300 digits; raw data is a tree (no object is reachable along two paths); a host class is
  identified by its name (no inheritance between host classes, and the name stands for the
  module-qualified name where a message prints the class itself) and has the attributes
  that its fields give it, no others.
\<close>

datatype pykey = KNone | KBool bool | KInt int | KStr string

datatype pyval =
    PNone
  | PBool bool
  | PInt int
  | PStr string
  | PList "pyval list"
  | PDict "(pykey \<times> pyval) list"
  | PObj string "(string \<times> pyval) list"
  | POpaque string

type_synonym dict = "(pykey \<times> pyval) list"

type_synonym path = "pykey list"

text \<open>The exceptions of the module, and the built-in ones its code can run into.\<close>

datatype error =
    ConstraintException path string
  | NoSuchStepException string
  | BadArgumentException string
  | InvalidInputException path string
  | InvalidOutputException path string
  | KeyError
  | AttributeError
  | TypeError

subsection \<open>Strings\<close>

fun py_join :: "string \<Rightarrow> string list \<Rightarrow> string" where
  "py_join sep [] = []"
| "py_join sep [x] = x"
| "py_join sep (x # y # ys) = x @ sep @ py_join sep (y # ys)"

definition digit_char :: "nat \<Rightarrow> char" where
  "digit_char d = ''0123456789'' ! d"

fun show_nat :: "nat \<Rightarrow> string" where
  "show_nat n = (if n < 10 then [digit_char n] else show_nat (n div 10) @ [digit_char (n mod 10)])"

declare show_nat.simps [simp del]

definition show_int :: "int \<Rightarrow> string" where
  "show_int i = (if i < 0 then CHR ''-'' # show_nat (nat (- i)) else show_nat (nat i))"

definition lower_char :: "char \<Rightarrow> char" where
  "lower_char c =
     (case List.find (\<lambda>(u, l). u = c)
             (zip ''ABCDEFGHIJKLMNOPQRSTUVWXYZ'' ''abcdefghijklmnopqrstuvwxyz'') of
        Some (u, l) \<Rightarrow> l
      | None \<Rightarrow> c)"

definition py_lower :: "string \<Rightarrow> string" where
  "py_lower s = map lower_char s"

definition digit_val :: "char \<Rightarrow> nat option" where
  "digit_val c =
     (case List.find (\<lambda>(d, n). d = c) (zip ''0123456789'' [0, 1, 2, 3, 4, 5, 6, 7, 8, 9]) of
        Some (d, n) \<Rightarrow> Some n
      | None \<Rightarrow> None)"

text \<open>The ASCII characters that \<^verbatim>\<open>int\<close> skips around the number.\<close>

definition is_space :: "char \<Rightarrow> bool" where
  "is_space c = (c \<in> set [CHR '' '', CHR 0x09, CHR 0x0A, CHR 0x0B, CHR 0x0C, CHR 0x0D])"

definition py_strip :: "string \<Rightarrow> string" where
  "py_strip s = rev (dropWhile is_space (rev (dropWhile is_space s)))"

text \<open>Decimal digits, single underscores allowed between two digits.\<close>

fun parse_digits :: "string \<Rightarrow> nat \<Rightarrow> bool \<Rightarrow> nat option" where
  "parse_digits [] acc prev_digit = (if prev_digit then Some acc else None)"
| "parse_digits (c # cs) acc prev_digit =
     (case digit_val c of
        Some d \<Rightarrow> parse_digits cs (acc * 10 + d) True
      | None \<Rightarrow>
          if c = CHR ''_'' \<and> prev_digit \<and> cs \<noteq> [] then parse_digits cs acc False else None)"

text \<open>
  \<^verbatim>\<open>int(s)\<close> on a string \<open>s\<close>: \<open>None\<close> is the \<^verbatim>\<open>ValueError\<close>, which a string of more than
  4300 digits gets too (the default limit of CPython 3.11).
\<close>

definition py_int :: "string \<Rightarrow> int option" where
  "py_int s =
     (if length (filter (\<lambda>c. digit_val c \<noteq> None) s) > 4300 then None
      else case py_strip s of
        [] \<Rightarrow> None
      | c # cs \<Rightarrow>
          if c = CHR ''-'' then map_option (\<lambda>n. - int n) (parse_digits cs 0 False)
          else if c = CHR ''+'' then map_option int (parse_digits cs 0 False)
          else map_option int (parse_digits (c # cs) 0 False))"

subsection \<open>Types, conversions, attributes\<close>

text \<open>\<^verbatim>\<open>type(data).__name__\<close> and \<^verbatim>\<open>str(type(data))\<close>.\<close>

fun type_name :: "pyval \<Rightarrow> string" where
  "type_name PNone = ''NoneType''"
| "type_name (PBool b) = ''bool''"
| "type_name (PInt i) = ''int''"
| "type_name (PStr s) = ''str''"
| "type_name (PList xs) = ''list''"
| "type_name (PDict kvs) = ''dict''"
| "type_name (PObj c fs) = c"
| "type_name (POpaque t) = t"

definition type_repr :: "pyval \<Rightarrow> string" where
  "type_repr v = ''<class '' @ [CHR 0x27] @ type_name v @ [CHR 0x27] @ ''>''"

fun key_str :: "pykey \<Rightarrow> string" where
  "key_str KNone = ''None''"
| "key_str (KBool b) = (if b then ''True'' else ''False'')"
| "key_str (KInt i) = show_int i"
| "key_str (KStr s) = s"

fun key_val :: "pykey \<Rightarrow> pyval" where
  "key_val KNone = PNone"
| "key_val (KBool b) = PBool b"
| "key_val (KInt i) = PInt i"
| "key_val (KStr s) = PStr s"

text \<open>A value used as a dict key: \<open>None\<close> is the \<^verbatim>\<open>TypeError\<close> of an unhashable value.\<close>

fun val_key :: "pyval \<Rightarrow> pykey option" where
  "val_key PNone = Some KNone"
| "val_key (PBool b) = Some (KBool b)"
| "val_key (PInt i) = Some (KInt i)"
| "val_key (PStr s) = Some (KStr s)"
| "val_key _ = None"

text \<open>Python compares and hashes \<^verbatim>\<open>True\<close> as \<^verbatim>\<open>1\<close> and \<^verbatim>\<open>False\<close> as \<^verbatim>\<open>0\<close>.\<close>

fun key_norm :: "pykey \<Rightarrow> pykey" where
  "key_norm (KBool b) = KInt (if b then 1 else 0)"
| "key_norm k = k"

definition key_eq :: "pykey \<Rightarrow> pykey \<Rightarrow> bool" where
  "key_eq a b = (key_norm a = key_norm b)"

fun dict_get :: "dict \<Rightarrow> pykey \<Rightarrow> pyval option" where
  "dict_get [] k = None"
| "dict_get ((k', v) # kvs) k = (if key_eq k' k then Some v else dict_get kvs k)"

definition dict_mem :: "dict \<Rightarrow> pykey \<Rightarrow> bool" where
  "dict_mem kvs k = (dict_get kvs k \<noteq> None)"

fun dict_set :: "dict \<Rightarrow> pykey \<Rightarrow> pyval \<Rightarrow> dict" where
  "dict_set [] k v = [(k, v)]"
| "dict_set ((k', v') # kvs) k v =
     (if key_eq k' k then (k', v) # kvs else (k', v') # dict_set kvs k v)"

fun dict_del :: "dict \<Rightarrow> pykey \<Rightarrow> dict" where
  "dict_del [] k = []"
| "dict_del ((k', v') # kvs) k = (if key_eq k' k then kvs else (k', v') # dict_del kvs k)"

text \<open>A dict with string keys only (keyword arguments, the fields found present).\<close>

fun str_set :: "(string \<times> 'a) list \<Rightarrow> string \<Rightarrow> 'a \<Rightarrow> (string \<times> 'a) list" where
  "str_set [] k v = [(k, v)]"
| "str_set ((k', v') # kvs) k v =
     (if k' = k then (k', v) # kvs else (k', v') # str_set kvs k v)"

definition str_mem :: "(string \<times> 'a) list \<Rightarrow> string \<Rightarrow> bool" where
  "str_mem kvs k = (k \<in> set (map fst kvs))"

text \<open>\<^verbatim>\<open>isinstance(data, int)\<close> holds of a \<^verbatim>\<open>bool\<close> too; \<^verbatim>\<open>int(data)\<close> and \<^verbatim>\<open>str(data)\<close> on these.\<close>

fun as_int :: "pyval \<Rightarrow> int option" where
  "as_int (PInt i) = Some i"
| "as_int (PBool b) = Some (if b then 1 else 0)"
| "as_int _ = None"

fun int_str :: "pyval \<Rightarrow> string" where
  "int_str (PBool b) = (if b then ''True'' else ''False'')"
| "int_str (PInt i) = show_int i"
| "int_str _ = []"

text \<open>
  The names that every built-in dict has as attributes (CPython 3.11); all of them are
  bound to methods or other objects, except \<^verbatim>\<open>__hash__\<close>, which is \<^verbatim>\<open>None\<close>.
\<close>

definition dict_attributes :: "string list" where
  "dict_attributes =
     [''__class__'', ''__class_getitem__'', ''__contains__'', ''__delattr__'', ''__delitem__'',
      ''__dir__'', ''__doc__'', ''__eq__'', ''__format__'', ''__ge__'', ''__getattribute__'',
      ''__getitem__'', ''__getstate__'', ''__gt__'', ''__hash__'', ''__init__'',
      ''__init_subclass__'', ''__ior__'', ''__iter__'', ''__le__'', ''__len__'', ''__lt__'',
      ''__ne__'', ''__new__'', ''__or__'', ''__reduce__'', ''__reduce_ex__'', ''__repr__'',
      ''__reversed__'', ''__ror__'', ''__setattr__'', ''__setitem__'', ''__sizeof__'',
      ''__str__'', ''__subclasshook__'', ''clear'', ''copy'', ''fromkeys'', ''get'', ''items'',
      ''keys'', ''pop'', ''popitem'', ''setdefault'', ''update'', ''values'']"

text \<open>\<^verbatim>\<open>getattr(data, name)\<close>: \<open>None\<close> is the \<^verbatim>\<open>AttributeError\<close>, so \<^verbatim>\<open>hasattr\<close> is \<open>\<noteq> None\<close>.\<close>

fun py_getattr :: "pyval \<Rightarrow> string \<Rightarrow> pyval option" where
  "py_getattr (PObj c fs) name = map_of fs name"
| "py_getattr (PDict kvs) name =
     (if name = ''__hash__'' then Some PNone
      else if name \<in> set dict_attributes then Some (POpaque ''builtin_function_or_method'')
      else None)"
| "py_getattr _ name = None"

subsection \<open>Host dataclasses\<close>

text \<open>
  The class an object node is bound to (\<^verbatim>\<open>_cls\<close>): its \<^verbatim>\<open>__name__\<close> and the parameters of
  the \<^verbatim>\<open>__init__\<close> that \<^verbatim>\<open>@dataclass\<close> generates, each with its default if it has one.
\<close>

datatype pycls = PyCls (cls_name: string) (cls_fields: "(string \<times> pyval option) list")

text \<open>\<^verbatim>\<open>isinstance(data, cls)\<close>.\<close>

fun py_isinstance :: "pyval \<Rightarrow> pycls \<Rightarrow> bool" where
  "py_isinstance (PObj c fs) k = (c = cls_name k)"
| "py_isinstance _ k = False"

fun init_fields :: "(string \<times> pyval option) list \<Rightarrow> (string \<times> pyval) list
    \<Rightarrow> (string \<times> pyval) list option" where
  "init_fields [] kwargs = Some []"
| "init_fields ((f, dflt) # fs) kwargs =
     (case (case map_of kwargs f of Some v \<Rightarrow> Some v | None \<Rightarrow> dflt) of
        None \<Rightarrow> None
      | Some v \<Rightarrow> map_option (\<lambda>r. (f, v) # r) (init_fields fs kwargs))"

text \<open>
  \<^verbatim>\<open>cls(**kwargs)\<close>: a keyword that is no parameter, or a parameter without default that
  has no keyword, is a \<^verbatim>\<open>TypeError\<close>.
\<close>

definition py_construct :: "pycls \<Rightarrow> (string \<times> pyval) list \<Rightarrow> error + pyval" where
  "py_construct k kwargs =
     (if \<exists>a \<in> set (map fst kwargs). a \<notin> set (map fst (cls_fields k)) then Inl TypeError
      else case init_fields (cls_fields k) kwargs of
             None \<Rightarrow> Inl TypeError
           | Some fs \<Rightarrow> Inr (PObj (cls_name k) fs))"

section \<open>Type nodes\<close>

datatype node =
    BoolType
  | StringType "int option" "int option" "(string \<times> (string \<Rightarrow> bool)) option"
  | IntType "int option" "int option"
  | ListType node "int option" "int option"
  | MapType node node "int option" "int option"
  | Object objdef
  | OneOfStringType "(string \<times> objdef) list" string
  | RefType string
and objdef =
    ObjectType (cls: pycls) (properties: "(string \<times> property) list") (name_attr: "string option")
and property =
    PropertyType (ptype: node) (required: bool) (required_if: "string list")
      (required_if_not: "string list") (conflicts: "string list") (field_override: string)

type_synonym objs = "(string \<times> objdef) list"

definition quoted :: "string \<Rightarrow> string" where
  "quoted s = [CHR 0x27] @ s @ [CHR 0x27]"

definition BoolType_unserialize :: "pyval \<Rightarrow> path \<Rightarrow> error + pyval" where
  "BoolType_unserialize data path =
     (case data of
        PBool b \<Rightarrow> Inr data
      | PInt i \<Rightarrow>
          if i = 0 then Inr (PBool False)
          else if i = 1 then Inr (PBool True)
          else Inl (ConstraintException path
                 (''Boolean value expected, integer found ('' @ show_int i @ '')''))
      | PStr s \<Rightarrow>
          if py_lower s \<in> set [''yes'', ''on'', ''true'', ''enable'', ''enabled'', ''1'']
          then Inr (PBool True)
          else if py_lower s \<in> set [''no'', ''off'', ''false'', ''disable'', ''disabled'', ''0'']
          then Inr (PBool False)
          else Inl (ConstraintException path
                 (''Boolean value expected, string found ('' @ s @ '')''))
      | _ \<Rightarrow> Inl (ConstraintException path
                 (''Boolean value expected, '' @ type_repr data @ '' found'')))"

definition StringType_validate ::
    "int option \<Rightarrow> int option \<Rightarrow> (string \<times> (string \<Rightarrow> bool)) option \<Rightarrow> pyval \<Rightarrow> path
     \<Rightarrow> error + unit" where
  "StringType_validate mn mx pat data path =
     (case data of
        PStr s \<Rightarrow>
          if (case mn of Some m \<Rightarrow> int (length s) < m | None \<Rightarrow> False)
          then Inl (ConstraintException path
                 (''String must be at least '' @ show_int (the mn) @ '' characters, ''
                  @ show_nat (length s) @ '' given''))
          else if (case mx of Some m \<Rightarrow> int (length s) > m | None \<Rightarrow> False)
          then Inl (ConstraintException path
                 (''String must be at most '' @ show_int (the mx) @ '' characters, ''
                  @ show_nat (length s) @ '' given''))
          else if (case pat of Some (txt, matches) \<Rightarrow> \<not> matches s | None \<Rightarrow> False)
          then Inl (ConstraintException path
                 (''String must match the pattern '' @ fst (the pat)))
          else Inr ()
      | _ \<Rightarrow> Inl (ConstraintException path
                 (''Must be a string, '' @ type_repr data @ '' given'')))"

definition StringType_unserialize ::
    "int option \<Rightarrow> int option \<Rightarrow> (string \<times> (string \<Rightarrow> bool)) option \<Rightarrow> pyval \<Rightarrow> path
     \<Rightarrow> error + pyval" where
  "StringType_unserialize mn mx pat data path =
     (let data' = (if as_int data \<noteq> None then PStr (int_str data) else data)
      in case StringType_validate mn mx pat data' path of
           Inl e \<Rightarrow> Inl e
         | Inr u \<Rightarrow> Inr data')"

definition IntType_validate :: "int option \<Rightarrow> int option \<Rightarrow> pyval \<Rightarrow> path \<Rightarrow> error + unit" where
  "IntType_validate mn mx data path =
     (case as_int data of
        None \<Rightarrow> Inl (ConstraintException path
                  (''Must be an integer, '' @ type_name data @ '' given''))
      | Some integer \<Rightarrow>
          if (case mn of Some m \<Rightarrow> integer < m | None \<Rightarrow> False)
          then Inl (ConstraintException path (''Must be at least '' @ show_int (the mn)))
          else if (case mx of Some m \<Rightarrow> integer > m | None \<Rightarrow> False)
          then Inl (ConstraintException path (''Must be at most '' @ show_int (the mx)))
          else Inr ())"

definition IntType_unserialize :: "int option \<Rightarrow> int option \<Rightarrow> pyval \<Rightarrow> path \<Rightarrow> error + pyval" where
  "IntType_unserialize mn mx data path =
     (case data of
        PStr s \<Rightarrow>
          (case py_int s of
             None \<Rightarrow> Inl (ConstraintException path ''Must be an integer'')
           | Some i \<Rightarrow>
               (case IntType_validate mn mx (PInt i) path of
                  Inl e \<Rightarrow> Inl e
                | Inr u \<Rightarrow> Inr (PInt i)))
      | _ \<Rightarrow>
          (case IntType_validate mn mx data path of
             Inl e \<Rightarrow> Inl e
           | Inr u \<Rightarrow> Inr data))"

definition ListType_validate_own :: "int option \<Rightarrow> int option \<Rightarrow> pyval \<Rightarrow> path \<Rightarrow> error + unit" where
  "ListType_validate_own mn mx data path =
     (case data of
        PList xs \<Rightarrow>
          if (case mn of Some m \<Rightarrow> int (length xs) < m | None \<Rightarrow> False)
          then Inl (ConstraintException path
                 (''Must have at least '' @ show_int (the mn) @ '' items, ''
                  @ show_nat (length xs) @ '' given''))
          else if (case mx of Some m \<Rightarrow> int (length xs) > m | None \<Rightarrow> False)
          then Inl (ConstraintException path
                 (''Must have at most '' @ show_int (the mx) @ '' items, ''
                  @ show_nat (length xs) @ '' given''))
          else Inr ()
      | _ \<Rightarrow> Inl (ConstraintException path
                 (''Must be a list, '' @ type_name data @ '' given'')))"

definition MapType_validate_own :: "int option \<Rightarrow> int option \<Rightarrow> pyval \<Rightarrow> path \<Rightarrow> error + dict" where
  "MapType_validate_own mn mx data path =
     (case data of
        PDict entries \<Rightarrow>
          if (case mn of Some m \<Rightarrow> int (length entries) < m | None \<Rightarrow> False)
          then Inl (ConstraintException [] [])
          else if (case mx of Some m \<Rightarrow> int (length entries) > m | None \<Rightarrow> False)
          then Inl (ConstraintException [] [])
          else Inr entries
      | _ \<Rightarrow> Inl (ConstraintException path
                 (''Must be a dict, '' @ type_name data @ '' given'')))"

definition required_if_holds :: "pyval \<Rightarrow> string \<Rightarrow> bool" where
  "required_if_holds data name =
     ((case data of PDict kvs \<Rightarrow> dict_mem kvs (KStr name) | _ \<Rightarrow> False)
      \<or> py_getattr data name = Some PNone)"

definition required_if_not_holds :: "pyval \<Rightarrow> string \<Rightarrow> bool" where
  "required_if_not_holds data name =
     ((case data of PDict kvs \<Rightarrow> dict_mem kvs (KStr name) | _ \<Rightarrow> False)
      \<or> (case py_getattr data name of Some v \<Rightarrow> v \<noteq> PNone | None \<Rightarrow> False))"

definition ObjectType_validate_not_set :: "pyval \<Rightarrow> property \<Rightarrow> path \<Rightarrow> error + unit" where
  "ObjectType_validate_not_set data object_property path =
     (if required object_property
      then Inl (ConstraintException path ''This field is required'')
      else case List.find (required_if_holds data) (required_if object_property) of
        Some name \<Rightarrow> Inl (ConstraintException path
                      (''This field is required because '' @ quoted name @ '' is set''))
      | None \<Rightarrow>
          if length (required_if_not object_property) > 0
             \<and> List.find (required_if_not_holds data) (required_if_not object_property) = None
          then (if length (required_if_not object_property) = 1
                then Inl (ConstraintException path
                       (''This field is required because ''
                        @ quoted (hd (required_if_not object_property)) @ '' is not set''))
                else Inl (ConstraintException path
                       (''This field is required because none of ''
                        @ quoted (py_join ([CHR 0x27] @ '', '' @ [CHR 0x27])
                                    (required_if_not object_property))
                        @ '' are set'')))
          else Inr ())"

definition py_item :: "dict \<Rightarrow> string \<Rightarrow> pyval" where
  "py_item kvs name = (case dict_get kvs (KStr name) of Some v \<Rightarrow> v | None \<Rightarrow> PNone)"

definition field_id_of :: "string \<Rightarrow> property \<Rightarrow> string" where
  "field_id_of property_id p = (if field_override p \<noteq> [] then field_override p else property_id)"

lemma size_key_val: "size (key_val k) = 0"
  by (cases k) simp_all

lemma size_dict_get:
  "dict_get kvs k = Some v \<Longrightarrow> size v < size_list (size_prod (\<lambda>x. 0) size) kvs"
  by (induction kvs) (auto split: if_splits)

lemma size_py_item:
  "py_item kvs name \<noteq> PNone \<Longrightarrow>
   size (py_item kvs name) < size_list (size_prod (\<lambda>x. 0) size) kvs"
  by (auto simp: py_item_def size_dict_get split: option.splits)

lemma size_dict_del:
  "size_list (size_prod (\<lambda>x. 0) size) (dict_del kvs k)
   \<le> size_list (size_prod (\<lambda>x. 0) size) kvs"
  by (induction kvs) auto

lemma size_dict_del_neq:
  "size_list (size_prod (\<lambda>x. 0) size) (dict_del kvs k)
     \<noteq> size_list (size_prod (\<lambda>x. 0) size) kvs \<Longrightarrow>
   size_list (size_prod (\<lambda>x. 0) size) (dict_del kvs k)
     < size_list (size_prod (\<lambda>x. 0) size) kvs"
  using size_dict_del [of kvs k] by simp

lemma size_MapType_validate_own:
  "MapType_validate_own mn mx data path = Inr entries \<Longrightarrow>
   size_list (size_prod (\<lambda>x. 0) size) entries < size data"
  by (auto simp: MapType_validate_own_def split: pyval.splits if_splits)

function unserialize :: "objs \<Rightarrow> node \<Rightarrow> pyval \<Rightarrow> path \<Rightarrow> error + pyval"
  and ListType_unserialize_items :: "objs \<Rightarrow> node \<Rightarrow> pyval list \<Rightarrow> nat \<Rightarrow> path \<Rightarrow> error + pyval list"
  and MapType_unserialize_entries :: "objs \<Rightarrow> node \<Rightarrow> node \<Rightarrow> dict \<Rightarrow> path \<Rightarrow> dict \<Rightarrow> error + dict"
  and ObjectType_unserialize :: "objs \<Rightarrow> objdef \<Rightarrow> pyval \<Rightarrow> path \<Rightarrow> error + pyval"
  and ObjectType_unserialize_properties ::
    "objs \<Rightarrow> (string \<times> property) list \<Rightarrow> dict \<Rightarrow> path \<Rightarrow> (string \<times> pyval) list
     \<Rightarrow> error + (string \<times> pyval) list"
where
  "unserialize objs BoolType data path = BoolType_unserialize data path"
| "unserialize objs (StringType mn mx pat) data path = StringType_unserialize mn mx pat data path"
| "unserialize objs (IntType mn mx) data path = IntType_unserialize mn mx data path"
| "unserialize objs (ListType items mn mx) data path =
     (case data of
        PList xs \<Rightarrow>
          (case ListType_unserialize_items objs items xs 0 path of
             Inl e \<Rightarrow> Inl e
           | Inr ys \<Rightarrow>
               (case ListType_validate_own mn mx (PList ys) path of
                  Inl e \<Rightarrow> Inl e
                | Inr u \<Rightarrow> Inr (PList ys)))
      | _ \<Rightarrow> Inl (ConstraintException path
                 (''Must be a list, '' @ type_name data @ '' given'')))"
| "unserialize objs (MapType keys vals mn mx) data path =
     (case MapType_validate_own mn mx data path of
        Inl e \<Rightarrow> Inl e
      | Inr entries \<Rightarrow>
          (case MapType_unserialize_entries objs keys vals entries path [] of
             Inl e \<Rightarrow> Inl e
           | Inr result \<Rightarrow> Inr (PDict result)))"
| "unserialize objs (Object od) data path = ObjectType_unserialize objs od data path"
| "unserialize objs (OneOfStringType types discriminator_field_name) data path =
     (case data of
        PDict kvs \<Rightarrow>
          (case dict_get kvs (KStr discriminator_field_name) of
             None \<Rightarrow> Inl (ConstraintException (path @ [KStr discriminator_field_name])
                        ''Required discriminator field not found'')
           | Some (PStr unserialized_discriminator_field) \<Rightarrow>
               (case map_of types unserialized_discriminator_field of
                  None \<Rightarrow> Inl (ConstraintException (path @ [KStr discriminator_field_name])
                            (''Invalid value for field: '' @ quoted unserialized_discriminator_field
                             @ '' expected one of: ''
                             @ quoted (py_join ([CHR 0x27] @ '', '' @ [CHR 0x27]) (map fst types))))
                | Some sub_type \<Rightarrow>
                    ObjectType_unserialize objs sub_type
                      (PDict (if str_mem (properties sub_type) discriminator_field_name then kvs
                              else dict_del kvs (KStr discriminator_field_name)))
                      path)
           | Some v \<Rightarrow> Inl (ConstraintException (path @ [KStr discriminator_field_name])
                          (''String required, '' @ type_name v @ '' found'')))
      | _ \<Rightarrow> Inl (ConstraintException path (''Must be a dict, got '' @ type_name data)))"
| "unserialize objs (RefType ident) data path =
     (case map_of objs ident of
        None \<Rightarrow> Inl KeyError
      | Some od \<Rightarrow> ObjectType_unserialize objs od data path)"
| "ListType_unserialize_items objs items [] i path = Inr []"
| "ListType_unserialize_items objs items (x # xs) i path =
     (case unserialize objs items x (path @ [KStr (show_nat i)]) of
        Inl e \<Rightarrow> Inl e
      | Inr y \<Rightarrow>
          (case ListType_unserialize_items objs items xs (Suc i) path of
             Inl e \<Rightarrow> Inl e
           | Inr ys \<Rightarrow> Inr (y # ys)))"
| "MapType_unserialize_entries objs keys vals [] path result = Inr result"
| "MapType_unserialize_entries objs keys vals ((key, val) # rest) path result =
     (case unserialize objs keys (key_val key) (path @ [key] @ [KStr ''key'']) of
        Inl e \<Rightarrow> Inl e
      | Inr unserialized_key \<Rightarrow>
          (case val_key unserialized_key of
             None \<Rightarrow> Inl TypeError
           | Some k \<Rightarrow>
               if dict_mem result k
               then Inl (ConstraintException (path @ [key] @ [KStr ''key''])
                      ''Key already exists in result dict'')
               else (case unserialize objs vals val (path @ [key] @ [KStr ''value'']) of
                       Inl e \<Rightarrow> Inl e
                     | Inr v \<Rightarrow>
                         MapType_unserialize_entries objs keys vals rest path (dict_set result k v))))"
| "ObjectType_unserialize objs (ObjectType c props nm) data path =
     (case data of
        PDict kvs \<Rightarrow>
          (case List.find (\<lambda>key. \<not> (case key of KStr s \<Rightarrow> str_mem props s | _ \<Rightarrow> False)) (map fst kvs) of
             Some key \<Rightarrow> Inl (ConstraintException path
                          (''Invalid parameter '' @ quoted (key_str key) @ '', expected one of: ''
                           @ py_join '', '' (map fst props)))
           | None \<Rightarrow>
               (case ObjectType_unserialize_properties objs props kvs path [] of
                  Inl e \<Rightarrow> Inl e
                | Inr kwargs \<Rightarrow> py_construct c kwargs))
      | _ \<Rightarrow> Inl (ConstraintException path (''Must be a dict, got '' @ type_name data)))"
| "ObjectType_unserialize_properties objs [] kvs path kwargs = Inr kwargs"
| "ObjectType_unserialize_properties objs ((property_id, object_property) # rest) kvs path kwargs =
     (if py_item kvs property_id \<noteq> PNone
      then (case unserialize objs (ptype object_property) (py_item kvs property_id)
                   (path @ [KStr property_id]) of
              Inl e \<Rightarrow> Inl e
            | Inr v \<Rightarrow>
                (case List.find (\<lambda>conflict. dict_mem kvs (KStr conflict)) (conflicts object_property) of
                   Some conflict \<Rightarrow> Inl (ConstraintException (path @ [KStr property_id])
                                     (''Field conflicts '' @ quoted conflict
                                      @ '', set one of the two, not both''))
                 | None \<Rightarrow>
                     ObjectType_unserialize_properties objs rest kvs path
                       (str_set kwargs (field_id_of property_id object_property) v)))
      else (case ObjectType_validate_not_set (PDict kvs) object_property (path @ [KStr property_id]) of
              Inl e \<Rightarrow> Inl e
            | Inr u \<Rightarrow> ObjectType_unserialize_properties objs rest kvs path kwargs))"
  by pat_completeness auto
termination
  apply (relation "inv_image (less_than <*lex*> less_than <*lex*> less_than)
     (\<lambda>x. case x of
        Inl (Inl (objs, n, data, path)) \<Rightarrow> (size data, 3::nat, 0::nat)
      | Inl (Inr (objs, n, xs, i, path)) \<Rightarrow> (size_list size xs, 0, 0)
      | Inr (Inl (objs, k, v, kvs, path, res)) \<Rightarrow> (size_list (size_prod (\<lambda>x. 0) size) kvs, 0, 0)
      | Inr (Inr (Inl (objs, od, data, path))) \<Rightarrow> (size data, 2, 0)
      | Inr (Inr (Inr (objs, props, kvs, path, kw))) \<Rightarrow> (size_list (size_prod (\<lambda>x. 0) size) kvs, 1, length props))")
                      apply (auto simp: size_py_item size_key_val size_dict_del_neq size_MapType_validate_own)
  done

subsection \<open>validate\<close>

definition BoolType_validate :: "pyval \<Rightarrow> path \<Rightarrow> error + unit" where
  "BoolType_validate data path =
     (case data of
        PBool b \<Rightarrow> Inr ()
      | _ \<Rightarrow> Inl (ConstraintException path
                 (''Boolean value expected, '' @ type_repr data @ '' found'')))"

text \<open>
  \<^verbatim>\<open>_validate_property\<close>: reads the field of the host object; when it is \<^verbatim>\<open>None\<close>, applies the
  requiredness rules of the property (\<^verbatim>\<open>self.properties[property_id]\<close>, the property the
  caller's loop is at).
\<close>

definition ObjectType_validate_property ::
    "pyval \<Rightarrow> path \<Rightarrow> string \<Rightarrow> string \<Rightarrow> property \<Rightarrow> error + pyval" where
  "ObjectType_validate_property data path field_id property_id property_field =
     (case py_getattr data field_id of
        None \<Rightarrow> Inl AttributeError
      | Some v \<Rightarrow>
          if v = PNone
          then (case ObjectType_validate_not_set data property_field (path @ [KStr property_id]) of
                  Inl e \<Rightarrow> Inl e
                | Inr u \<Rightarrow> Inr v)
          else Inr v)"

text \<open>The second loop of \<^verbatim>\<open>ObjectType.validate\<close>, over the fields found present.\<close>

fun ObjectType_validate_rules ::
    "(string \<times> property) list \<Rightarrow> path \<Rightarrow> (string \<times> pyval) list \<Rightarrow> error + unit" where
  "ObjectType_validate_rules [] path vals = Inr ()"
| "ObjectType_validate_rules ((property_id, property_field) # rest) path vals =
     (if str_mem vals property_id
      then (case List.find (str_mem vals) (conflicts property_field) of
              Some c \<Rightarrow> Inl (ConstraintException (path @ [KStr property_id])
                          (''Field conflicts with '' @ c))
            | None \<Rightarrow> ObjectType_validate_rules rest path vals)
      else if required property_field
      then Inl (ConstraintException (path @ [KStr property_id]) ''Field is required but not set'')
      else if length (required_if_not property_field) > 0
              \<and> List.find (str_mem vals) (required_if_not property_field) = None
      then Inl (ConstraintException (path @ [KStr property_id])
             (''Field is required because none of ''
              @ quoted (py_join ([CHR 0x27] @ '', '' @ [CHR 0x27]) (required_if_not property_field))
              @ '' are set''))
      else (case List.find (str_mem vals) (required_if property_field) of
              Some r \<Rightarrow> Inl (ConstraintException (path @ [KStr property_id])
                          (''Field is required because none of ''
                           @ quoted (py_join ([CHR 0x27] @ '', '' @ [CHR 0x27])
                                       (required_if_not property_field))
                           @ '' are set''))
            | None \<Rightarrow> ObjectType_validate_rules rest path vals))"

lemma size_map_of:
  "map_of fs k = Some v \<Longrightarrow> size v < size_list (size_prod (\<lambda>x. 0) size) fs"
  by (induction fs) (auto split: if_splits)

lemma size_py_getattr: "py_getattr data name = Some v \<Longrightarrow> size v < size data"
  by (cases data) (auto dest: size_map_of split: if_splits)

lemma size_ObjectType_validate_property:
  "ObjectType_validate_property data path field_id property_id property_field = Inr v \<Longrightarrow>
   size v < size data"
  by (auto simp: ObjectType_validate_property_def dest: size_py_getattr
           split: option.splits if_splits sum.splits)

lemma size_ListType_validate_own:
  "ListType_validate_own mn mx (PList xs) path = Inr u \<Longrightarrow> size_list size xs < size (PList xs)"
  by simp

text \<open>
  In the clause of a list, the branch for data that is no list is never taken: for such
  data \<^verbatim>\<open>_validate\<close> has raised.
\<close>

function validate :: "objs \<Rightarrow> node \<Rightarrow> pyval \<Rightarrow> path \<Rightarrow> error + unit"
  and ListType_validate_items :: "objs \<Rightarrow> node \<Rightarrow> pyval list \<Rightarrow> nat \<Rightarrow> path \<Rightarrow> error + unit"
  and MapType_validate_entries :: "objs \<Rightarrow> node \<Rightarrow> node \<Rightarrow> dict \<Rightarrow> path \<Rightarrow> error + unit"
  and ObjectType_validate :: "objs \<Rightarrow> objdef \<Rightarrow> pyval \<Rightarrow> path \<Rightarrow> error + unit"
  and ObjectType_validate_properties ::
    "objs \<Rightarrow> (string \<times> property) list \<Rightarrow> pyval \<Rightarrow> path \<Rightarrow> (string \<times> pyval) list
     \<Rightarrow> error + (string \<times> pyval) list"
where
  "validate objs BoolType data path = BoolType_validate data path"
| "validate objs (StringType mn mx pat) data path = StringType_validate mn mx pat data path"
| "validate objs (IntType mn mx) data path = IntType_validate mn mx data path"
| "validate objs (ListType items mn mx) data path =
     (case ListType_validate_own mn mx data path of
        Inl e \<Rightarrow> Inl e
      | Inr u \<Rightarrow>
          (case data of
             PList xs \<Rightarrow> ListType_validate_items objs items xs 0 path
           | _ \<Rightarrow> Inl TypeError))"
| "validate objs (MapType keys vals mn mx) data path =
     (case MapType_validate_own mn mx data path of
        Inl e \<Rightarrow> Inl e
      | Inr entries \<Rightarrow> MapType_validate_entries objs keys vals entries path)"
| "validate objs (Object od) data path = ObjectType_validate objs od data path"
| "validate objs (OneOfStringType types discriminator_field_name) data path =
     (case List.find (\<lambda>(discriminator, item_schema). py_isinstance data (cls item_schema)) types of
        None \<Rightarrow> Inl (ConstraintException path
                  (''Invalid type: '' @ quoted (type_name data) @ '', expected one of ''
                   @ quoted (py_join ([CHR 0x27] @ '', '' @ [CHR 0x27])
                               (map (\<lambda>(discriminator, item_schema). cls_name (cls item_schema)) types))))
      | Some (discriminator, item_schema) \<Rightarrow>
          (case ObjectType_validate objs item_schema data [] of
             Inl e \<Rightarrow> Inl e
           | Inr u \<Rightarrow>
               if str_mem (properties item_schema) discriminator_field_name
               then (case py_getattr data discriminator_field_name of
                       None \<Rightarrow> Inl AttributeError
                     | Some v \<Rightarrow>
                         if v \<noteq> PStr discriminator
                         then Inl (ConstraintException (path @ [KStr discriminator_field_name])
                                (''Invalid value for '' @ quoted discriminator_field_name @ '' on ''
                                 @ quoted (cls_name (cls item_schema)) @ '', should be: ''
                                 @ quoted discriminator))
                         else Inr ())
               else Inr ()))"
| "validate objs (RefType ident) data path =
     (case map_of objs ident of
        None \<Rightarrow> Inl KeyError
      | Some od \<Rightarrow> ObjectType_validate objs od data path)"
| "ListType_validate_items objs items [] i path = Inr ()"
| "ListType_validate_items objs items (x # xs) i path =
     (case validate objs items x (path @ [KStr (show_nat i)]) of
        Inl e \<Rightarrow> Inl e
      | Inr u \<Rightarrow> ListType_validate_items objs items xs (Suc i) path)"
| "MapType_validate_entries objs keys vals [] path = Inr ()"
| "MapType_validate_entries objs keys vals ((key, val) # rest) path =
     (case validate objs keys (key_val key) (path @ [key] @ [KStr ''key'']) of
        Inl e \<Rightarrow> Inl e
      | Inr u \<Rightarrow>
          (case validate objs vals val (path @ [key]) of
             Inl e \<Rightarrow> Inl e
           | Inr u \<Rightarrow> MapType_validate_entries objs keys vals rest path))"
| "ObjectType_validate objs (ObjectType c props nm) data path =
     (if \<not> py_isinstance data c
      then Inl (ConstraintException path
             (''Must be an instance of '' @ cls_name c @ '', '' @ type_name data @ '' given''))
      else (case ObjectType_validate_properties objs props data path [] of
              Inl e \<Rightarrow> Inl e
            | Inr vals \<Rightarrow> ObjectType_validate_rules props path vals))"
| "ObjectType_validate_properties objs [] data path vals = Inr vals"
| "ObjectType_validate_properties objs ((property_id, property_field) # rest) data path vals =
     (case ObjectType_validate_property data path (field_id_of property_id property_field)
             property_id property_field of
        Inl e \<Rightarrow> Inl e
      | Inr v \<Rightarrow>
          if v \<noteq> PNone
          then (case validate objs (ptype property_field) v (path @ [KStr property_id]) of
                  Inl e \<Rightarrow> Inl e
                | Inr u \<Rightarrow>
                    ObjectType_validate_properties objs rest data path (str_set vals property_id v))
          else ObjectType_validate_properties objs rest data path vals)"
  by pat_completeness auto
termination
  apply (relation "inv_image (less_than <*lex*> less_than <*lex*> less_than)
     (\<lambda>x. case x of
        Inl (Inl (objs, n, data, path)) \<Rightarrow> (size data, 3::nat, 0::nat)
      | Inl (Inr (objs, n, xs, i, path)) \<Rightarrow> (size_list size xs, 0, 0)
      | Inr (Inl (objs, k, v, kvs, path)) \<Rightarrow> (size_list (size_prod (\<lambda>x. 0) size) kvs, 0, 0)
      | Inr (Inr (Inl (objs, od, data, path))) \<Rightarrow> (size data, 2, 0)
      | Inr (Inr (Inr (objs, props, data, path, vs))) \<Rightarrow> (size data, 1, length props))")
                      apply (auto simp: size_key_val size_MapType_validate_own
                                        size_ObjectType_validate_property)
  done

subsection \<open>serialize\<close>

definition BoolType_serialize :: "pyval \<Rightarrow> path \<Rightarrow> error + pyval" where
  "BoolType_serialize data path =
     (case data of
        PBool b \<Rightarrow> Inr data
      | _ \<Rightarrow> Inl (ConstraintException path
                 (''Boolean value expected, '' @ type_repr data @ '' found'')))"

definition StringType_serialize ::
    "int option \<Rightarrow> int option \<Rightarrow> (string \<times> (string \<Rightarrow> bool)) option \<Rightarrow> pyval \<Rightarrow> path
     \<Rightarrow> error + pyval" where
  "StringType_serialize mn mx pat data path =
     (case StringType_validate mn mx pat data path of
        Inl e \<Rightarrow> Inl e
      | Inr u \<Rightarrow> Inr data)"

definition IntType_serialize :: "int option \<Rightarrow> int option \<Rightarrow> pyval \<Rightarrow> path \<Rightarrow> error + pyval" where
  "IntType_serialize mn mx data path =
     (case IntType_validate mn mx data path of
        Inl e \<Rightarrow> Inl e
      | Inr u \<Rightarrow> Inr data)"

text \<open>
  In the clause of a list, the branch for data that is no list is never taken: for such
  data \<^verbatim>\<open>_validate\<close> has raised.
\<close>

function serialize :: "objs \<Rightarrow> node \<Rightarrow> pyval \<Rightarrow> path \<Rightarrow> error + pyval"
  and ListType_serialize_items :: "objs \<Rightarrow> node \<Rightarrow> pyval list \<Rightarrow> nat \<Rightarrow> path \<Rightarrow> error + pyval list"
  and MapType_serialize_entries :: "objs \<Rightarrow> node \<Rightarrow> node \<Rightarrow> dict \<Rightarrow> path \<Rightarrow> dict \<Rightarrow> error + dict"
  and ObjectType_serialize :: "objs \<Rightarrow> objdef \<Rightarrow> pyval \<Rightarrow> path \<Rightarrow> error + dict"
  and ObjectType_serialize_properties ::
    "objs \<Rightarrow> (string \<times> property) list \<Rightarrow> pyval \<Rightarrow> path \<Rightarrow> dict \<Rightarrow> error + dict"
where
  "serialize objs BoolType data path = BoolType_serialize data path"
| "serialize objs (StringType mn mx pat) data path = StringType_serialize mn mx pat data path"
| "serialize objs (IntType mn mx) data path = IntType_serialize mn mx data path"
| "serialize objs (ListType items mn mx) data path =
     (case ListType_validate_own mn mx data path of
        Inl e \<Rightarrow> Inl e
      | Inr u \<Rightarrow>
          (case data of
             PList xs \<Rightarrow>
               (case ListType_serialize_items objs items xs 0 path of
                  Inl e \<Rightarrow> Inl e
                | Inr result \<Rightarrow> Inr (PList result))
           | _ \<Rightarrow> Inl TypeError))"
| "serialize objs (MapType keys vals mn mx) data path =
     (case MapType_validate_own mn mx data path of
        Inl e \<Rightarrow> Inl e
      | Inr entries \<Rightarrow>
          (case MapType_serialize_entries objs keys vals entries path [] of
             Inl e \<Rightarrow> Inl e
           | Inr result \<Rightarrow>
               (case MapType_validate_own mn mx (PDict result) path of
                  Inl e \<Rightarrow> Inl e
                | Inr entries' \<Rightarrow> Inr (PDict entries'))))"
| "serialize objs (Object od) data path =
     (case ObjectType_serialize objs od data path of
        Inl e \<Rightarrow> Inl e
      | Inr result \<Rightarrow> Inr (PDict result))"
| "serialize objs (OneOfStringType types discriminator_field_name) data path =
     (case List.find (\<lambda>(discriminator, item_schema). py_isinstance data (cls item_schema)) types of
        None \<Rightarrow> Inl (ConstraintException path
                  (''Invalid type: '' @ quoted (type_name data) @ '', expected one of ''
                   @ quoted (py_join ([CHR 0x27] @ '', '' @ [CHR 0x27])
                               (map (\<lambda>(discriminator, item_schema). cls_name (cls item_schema)) types))))
      | Some (discriminator, item_schema) \<Rightarrow>
          (case ObjectType_serialize objs item_schema data [] of
             Inl e \<Rightarrow> Inl e
           | Inr serialized_data \<Rightarrow>
               if str_mem (properties item_schema) discriminator_field_name
               then (case py_getattr data discriminator_field_name of
                       None \<Rightarrow> Inl AttributeError
                     | Some v \<Rightarrow>
                         if v \<noteq> PStr discriminator
                         then Inl (ConstraintException (path @ [KStr discriminator_field_name])
                                (''Invalid value for '' @ quoted discriminator_field_name @ '' on ''
                                 @ quoted (cls_name (cls item_schema)) @ '', should be: ''
                                 @ quoted discriminator))
                         else Inr (PDict serialized_data))
               else Inr (PDict (dict_set serialized_data (KStr discriminator_field_name)
                                  (PStr discriminator)))))"
| "serialize objs (RefType ident) data path =
     (case map_of objs ident of
        None \<Rightarrow> Inl KeyError
      | Some od \<Rightarrow>
          (case ObjectType_serialize objs od data path of
             Inl e \<Rightarrow> Inl e
           | Inr result \<Rightarrow> Inr (PDict result)))"
| "ListType_serialize_items objs items [] i path = Inr []"
| "ListType_serialize_items objs items (x # xs) i path =
     (case serialize objs items x (path @ [KStr (show_nat i)]) of
        Inl e \<Rightarrow> Inl e
      | Inr y \<Rightarrow>
          (case ListType_serialize_items objs items xs (Suc i) path of
             Inl e \<Rightarrow> Inl e
           | Inr ys \<Rightarrow> Inr (y # ys)))"
| "MapType_serialize_entries objs keys vals [] path result = Inr result"
| "MapType_serialize_entries objs keys vals ((key, val) # rest) path result =
     (case serialize objs keys (key_val key) (path @ [KStr (key_str key)] @ [KStr ''key'']) of
        Inl e \<Rightarrow> Inl e
      | Inr serialized_key \<Rightarrow>
          (case serialize objs vals val (path @ [KStr (key_str key)] @ [KStr ''value'']) of
             Inl e \<Rightarrow> Inl e
           | Inr v \<Rightarrow>
               (case val_key serialized_key of
                  None \<Rightarrow> Inl TypeError
                | Some k \<Rightarrow>
                    MapType_serialize_entries objs keys vals rest path (dict_set result k v))))"
| "ObjectType_serialize objs (ObjectType c props nm) data path =
     (if \<not> py_isinstance data c
      then Inl (ConstraintException path
             (''Must be an instance of '' @ cls_name c @ '', '' @ type_name data @ '' given''))
      else ObjectType_serialize_properties objs props data path [])"
| "ObjectType_serialize_properties objs [] data path result = Inr result"
| "ObjectType_serialize_properties objs ((property_id, property_field) # rest) data path result =
     (case ObjectType_validate_property data path (field_id_of property_id property_field)
             property_id property_field of
        Inl e \<Rightarrow> Inl e
      | Inr v \<Rightarrow>
          if v \<noteq> PNone
          then (case serialize objs (ptype property_field) v (path @ [KStr property_id]) of
                  Inl e \<Rightarrow> Inl e
                | Inr raw \<Rightarrow>
                    ObjectType_serialize_properties objs rest data path
                      (dict_set result (KStr property_id) raw))
          else ObjectType_serialize_properties objs rest data path result)"
  by pat_completeness auto
termination
  apply (relation "inv_image (less_than <*lex*> less_than <*lex*> less_than)
     (\<lambda>x. case x of
        Inl (Inl (objs, n, data, path)) \<Rightarrow> (size data, 3::nat, 0::nat)
      | Inl (Inr (objs, n, xs, i, path)) \<Rightarrow> (size_list size xs, 0, 0)
      | Inr (Inl (objs, k, v, kvs, path, res)) \<Rightarrow> (size_list (size_prod (\<lambda>x. 0) size) kvs, 0, 0)
      | Inr (Inr (Inl (objs, od, data, path))) \<Rightarrow> (size data, 2, 0)
      | Inr (Inr (Inr (objs, props, data, path, res))) \<Rightarrow> (size data, 1, length props))")
                      apply (auto simp: size_key_val size_MapType_validate_own
                                        size_ObjectType_validate_property)
  done

section \<open>Scopes\<close>

text \<open>
  A scope: its root identifier and its table of object definitions.  The references inside
  the definitions of a scope resolve in that scope's table.
\<close>

record scope =
  root :: string
  objects :: "(string \<times> objdef) list"

text \<open>
  The three operations read \<^verbatim>\<open>root_object.__name__\<close> for the new path segment: an attribute
  of the \<^verbatim>\<open>ObjectType\<close> instance (\<open>name_attr\<close>), not of the host class.
\<close>

definition ScopeType_unserialize :: "scope \<Rightarrow> pyval \<Rightarrow> path \<Rightarrow> error + pyval" where
  "ScopeType_unserialize sc data path =
     (case map_of (objects sc) (root sc) of
        None \<Rightarrow> Inl KeyError
      | Some root_object \<Rightarrow>
          (case name_attr root_object of
             None \<Rightarrow> Inl AttributeError
           | Some n \<Rightarrow> ObjectType_unserialize (objects sc) root_object data (path @ [KStr n])))"

definition ScopeType_validate :: "scope \<Rightarrow> pyval \<Rightarrow> path \<Rightarrow> error + unit" where
  "ScopeType_validate sc data path =
     (case map_of (objects sc) (root sc) of
        None \<Rightarrow> Inl KeyError
      | Some root_object \<Rightarrow>
          (case name_attr root_object of
             None \<Rightarrow> Inl AttributeError
           | Some n \<Rightarrow> ObjectType_validate (objects sc) root_object data (path @ [KStr n])))"

definition ScopeType_serialize :: "scope \<Rightarrow> pyval \<Rightarrow> path \<Rightarrow> error + pyval" where
  "ScopeType_serialize sc data path =
     (case map_of (objects sc) (root sc) of
        None \<Rightarrow> Inl KeyError
      | Some root_object \<Rightarrow>
          (case name_attr root_object of
             None \<Rightarrow> Inl AttributeError
           | Some n \<Rightarrow>
               (case ObjectType_serialize (objects sc) root_object data (path @ [KStr n]) of
                  Inl e \<Rightarrow> Inl e
                | Inr result \<Rightarrow> Inr (PDict result))))"

section \<open>Steps and schemas\<close>

text \<open>
  A step: its handler, its input scope and its output scopes by output identifier.  The
  handler returns the components of the tuple it answers with, or raises.
\<close>

record step =
  handler :: "pyval \<Rightarrow> error + pyval list"
  input :: scope
  outputs :: "(string \<times> scope) list"

text \<open>\<^verbatim>\<open>StepType.__call__\<close>.\<close>

definition StepType_call :: "step \<Rightarrow> pyval \<Rightarrow> bool \<Rightarrow> bool \<Rightarrow> error + string \<times> pyval" where
  "StepType_call st params skip_input_validation skip_output_validation =
     (case (if \<not> skip_input_validation
            then ScopeType_validate (input st) params [KStr ''input'']
            else Inr ()) of
        Inl e \<Rightarrow> Inl e
      | Inr u \<Rightarrow>
          (case handler st params of
             Inl e \<Rightarrow> Inl e
           | Inr result \<Rightarrow>
               if length result \<noteq> 2
               then Inl (BadArgumentException
                      (''The step returned '' @ show_nat (length result)
                       @ '' results instead of 2. Did your step return the correct results?''))
               else (case val_key (result ! 0) of
                       None \<Rightarrow> Inl TypeError
                     | Some k \<Rightarrow>
                         (case (case k of KStr output_id \<Rightarrow>
                                   map_option (Pair output_id) (map_of (outputs st) output_id)
                                | _ \<Rightarrow> None) of
                            None \<Rightarrow> Inl (BadArgumentException
                                      (''The step returned an undeclared output ID: '' @ key_str k
                                       @ '', please return one of: ''
                                       @ quoted (py_join ([CHR 0x27] @ '', '' @ [CHR 0x27])
                                                   (map fst (outputs st)))))
                          | Some (output_id, output) \<Rightarrow>
                              (case (if \<not> skip_output_validation
                                     then ScopeType_validate output (result ! 1)
                                            [KStr ''output'', KStr output_id]
                                     else Inr ()) of
                                 Inl e \<Rightarrow> Inl e
                               | Inr u \<Rightarrow> Inr (output_id, result ! 1))))))"

text \<open>\<^verbatim>\<open>SchemaType\<close>: the steps by identifier.  The static methods come first.\<close>

definition SchemaType_private_unserialize_input :: "step \<Rightarrow> pyval \<Rightarrow> error + pyval" where
  "SchemaType_private_unserialize_input st data =
     (case ScopeType_unserialize (input st) data [] of
        Inl (ConstraintException p m) \<Rightarrow> Inl (InvalidInputException p m)
      | r \<Rightarrow> r)"

definition SchemaType_private_call_step ::
    "step \<Rightarrow> pyval \<Rightarrow> bool \<Rightarrow> bool \<Rightarrow> error + string \<times> pyval" where
  "SchemaType_private_call_step st input_param skip_input_validation skip_output_validation =
     StepType_call st input_param skip_input_validation skip_output_validation"

definition SchemaType_private_serialize_output :: "step \<Rightarrow> string \<Rightarrow> pyval \<Rightarrow> error + pyval" where
  "SchemaType_private_serialize_output st output_id output_data =
     (case map_of (outputs st) output_id of
        None \<Rightarrow> Inl KeyError
      | Some output \<Rightarrow>
          (case ScopeType_serialize output output_data [] of
             Inl (ConstraintException p m) \<Rightarrow> Inl (InvalidOutputException p m)
           | r \<Rightarrow> r))"


definition SchemaType_call_step ::
    "(string \<times> step) list \<Rightarrow> string \<Rightarrow> pyval \<Rightarrow> error + string \<times> pyval" where
  "SchemaType_call_step steps step_id input_param =
     (case map_of steps step_id of
        None \<Rightarrow> Inl (NoSuchStepException step_id)
      | Some st \<Rightarrow> SchemaType_private_call_step st input_param False False)"


text \<open>\<^verbatim>\<open>SchemaType.__call__\<close>.\<close>

definition SchemaType_call ::
    "(string \<times> step) list \<Rightarrow> string \<Rightarrow> pyval \<Rightarrow> bool \<Rightarrow> error + string \<times> pyval" where
  "SchemaType_call steps step_id data skip_serialization =
     (case map_of steps step_id of
        None \<Rightarrow> Inl (NoSuchStepException step_id)
      | Some st \<Rightarrow>
          (case SchemaType_private_unserialize_input st data of
             Inl e \<Rightarrow> Inl e
           | Inr input_param \<Rightarrow>
               (case SchemaType_private_call_step st input_param True True of
                  Inl e \<Rightarrow> Inl e
                | Inr (output_id, output_data) \<Rightarrow>
                    if skip_serialization
                    then (case map_of (outputs st) output_id of
                            None \<Rightarrow> Inl KeyError
                          | Some output \<Rightarrow>
                              (case ScopeType_validate output output_data [] of
                                 Inl e \<Rightarrow> Inl e
                               | Inr u \<Rightarrow> Inr (output_id, output_data)))
                    else (case SchemaType_private_serialize_output st output_id output_data of
                            Inl e \<Rightarrow> Inl e
                          | Inr serialized_output_data \<Rightarrow>
                              Inr (output_id, serialized_output_data)))))"

section \<open>What \<^verbatim>\<open>unserialize\<close> does to the caller's data\<close>

text \<open>
  \<^verbatim>\<open>unserialize\<close> assigns to the list it is given (\<^verbatim>\<open>data[i] = ...\<close>) and deletes from the
  dict it is given (\<^verbatim>\<open>del data[...]\<close>).  The functions of this section give the state of the
  object that was passed as \<^verbatim>\<open>data\<close> when the call returns or raises; the value returned
  or the exception raised is the one of the functions above.  A call works on every element,
  entry and field once, so each is read as it was when the call began.
\<close>

function unserialize_effect :: "objs \<Rightarrow> node \<Rightarrow> pyval \<Rightarrow> path \<Rightarrow> pyval"
  and ListType_unserialize_items_effect :: "objs \<Rightarrow> node \<Rightarrow> pyval list \<Rightarrow> nat \<Rightarrow> path \<Rightarrow> pyval list"
  and MapType_unserialize_entries_effect :: "objs \<Rightarrow> node \<Rightarrow> node \<Rightarrow> dict \<Rightarrow> path \<Rightarrow> dict \<Rightarrow> dict"
  and ObjectType_unserialize_effect :: "objs \<Rightarrow> objdef \<Rightarrow> pyval \<Rightarrow> path \<Rightarrow> pyval"
  and ObjectType_unserialize_properties_effect ::
    "objs \<Rightarrow> (string \<times> property) list \<Rightarrow> dict \<Rightarrow> path \<Rightarrow> dict \<Rightarrow> dict"
where
  "unserialize_effect objs BoolType data path = data"
| "unserialize_effect objs (StringType mn mx pat) data path = data"
| "unserialize_effect objs (IntType mn mx) data path = data"
| "unserialize_effect objs (ListType items mn mx) data path =
     (case data of
        PList xs \<Rightarrow> PList (ListType_unserialize_items_effect objs items xs 0 path)
      | _ \<Rightarrow> data)"
| "unserialize_effect objs (MapType keys vals mn mx) data path =
     (case MapType_validate_own mn mx data path of
        Inl e \<Rightarrow> data
      | Inr entries \<Rightarrow> PDict (MapType_unserialize_entries_effect objs keys vals entries path []))"
| "unserialize_effect objs (Object od) data path = ObjectType_unserialize_effect objs od data path"
| "unserialize_effect objs (OneOfStringType types discriminator_field_name) data path =
     (case data of
        PDict kvs \<Rightarrow>
          (case dict_get kvs (KStr discriminator_field_name) of
             Some (PStr unserialized_discriminator_field) \<Rightarrow>
               (case map_of types unserialized_discriminator_field of
                  None \<Rightarrow> data
                | Some sub_type \<Rightarrow>
                    ObjectType_unserialize_effect objs sub_type
                      (PDict (if str_mem (properties sub_type) discriminator_field_name then kvs
                              else dict_del kvs (KStr discriminator_field_name)))
                      path)
           | _ \<Rightarrow> data)
      | _ \<Rightarrow> data)"
| "unserialize_effect objs (RefType ident) data path =
     (case map_of objs ident of
        None \<Rightarrow> data
      | Some od \<Rightarrow> ObjectType_unserialize_effect objs od data path)"
| "ListType_unserialize_items_effect objs items [] i path = []"
| "ListType_unserialize_items_effect objs items (x # xs) i path =
     (case unserialize objs items x (path @ [KStr (show_nat i)]) of
        Inl e \<Rightarrow> unserialize_effect objs items x (path @ [KStr (show_nat i)]) # xs
      | Inr y \<Rightarrow> y # ListType_unserialize_items_effect objs items xs (Suc i) path)"
| "MapType_unserialize_entries_effect objs keys vals [] path result = []"
| "MapType_unserialize_entries_effect objs keys vals ((key, val) # rest) path result =
     (case unserialize objs keys (key_val key) (path @ [key] @ [KStr ''key'']) of
        Inl e \<Rightarrow> (key, val) # rest
      | Inr unserialized_key \<Rightarrow>
          (case val_key unserialized_key of
             None \<Rightarrow> (key, val) # rest
           | Some k \<Rightarrow>
               if dict_mem result k then (key, val) # rest
               else (case unserialize objs vals val (path @ [key] @ [KStr ''value'']) of
                       Inl e \<Rightarrow>
                         (key, unserialize_effect objs vals val (path @ [key] @ [KStr ''value''])) # rest
                     | Inr v \<Rightarrow>
                         (key, unserialize_effect objs vals val (path @ [key] @ [KStr ''value'']))
                         # MapType_unserialize_entries_effect objs keys vals rest path
                             (dict_set result k v))))"
| "ObjectType_unserialize_effect objs (ObjectType c props nm) data path =
     (case data of
        PDict kvs \<Rightarrow>
          (case List.find (\<lambda>key. \<not> (case key of KStr s \<Rightarrow> str_mem props s | _ \<Rightarrow> False)) (map fst kvs) of
             Some key \<Rightarrow> data
           | None \<Rightarrow> PDict (ObjectType_unserialize_properties_effect objs props kvs path kvs))
      | _ \<Rightarrow> data)"
| "ObjectType_unserialize_properties_effect objs [] kvs path current = current"
| "ObjectType_unserialize_properties_effect objs ((property_id, object_property) # rest) kvs path
     current =
     (if py_item kvs property_id \<noteq> PNone
      then (case unserialize objs (ptype object_property) (py_item kvs property_id)
                   (path @ [KStr property_id]) of
              Inl e \<Rightarrow>
                dict_set current (KStr property_id)
                  (unserialize_effect objs (ptype object_property) (py_item kvs property_id)
                     (path @ [KStr property_id]))
            | Inr v \<Rightarrow>
                (case List.find (\<lambda>conflict. dict_mem kvs (KStr conflict)) (conflicts object_property) of
                   Some conflict \<Rightarrow>
                     dict_set current (KStr property_id)
                       (unserialize_effect objs (ptype object_property) (py_item kvs property_id)
                          (path @ [KStr property_id]))
                 | None \<Rightarrow>
                     ObjectType_unserialize_properties_effect objs rest kvs path
                       (dict_set current (KStr property_id)
                          (unserialize_effect objs (ptype object_property) (py_item kvs property_id)
                             (path @ [KStr property_id])))))
      else (case ObjectType_validate_not_set (PDict kvs) object_property (path @ [KStr property_id]) of
              Inl e \<Rightarrow> current
            | Inr u \<Rightarrow> ObjectType_unserialize_properties_effect objs rest kvs path current))"
  by pat_completeness auto
termination
  apply (relation "inv_image (less_than <*lex*> less_than <*lex*> less_than)
     (\<lambda>x. case x of
        Inl (Inl (objs, n, data, path)) \<Rightarrow> (size data, 3::nat, 0::nat)
      | Inl (Inr (objs, n, xs, i, path)) \<Rightarrow> (size_list size xs, 0, 0)
      | Inr (Inl (objs, k, v, kvs, path, res)) \<Rightarrow> (size_list (size_prod (\<lambda>x. 0) size) kvs, 0, 0)
      | Inr (Inr (Inl (objs, od, data, path))) \<Rightarrow> (size data, 2, 0)
      | Inr (Inr (Inr (objs, props, kvs, path, cur))) \<Rightarrow> (size_list (size_prod (\<lambda>x. 0) size) kvs, 1, length props))")
                      apply (auto simp: size_py_item size_key_val size_dict_del_neq
                                        size_MapType_validate_own)
  done

definition ScopeType_unserialize_effect :: "scope \<Rightarrow> pyval \<Rightarrow> path \<Rightarrow> pyval" where
  "ScopeType_unserialize_effect sc data path =
     (case map_of (objects sc) (root sc) of
        None \<Rightarrow> data
      | Some root_object \<Rightarrow>
          (case name_attr root_object of
             None \<Rightarrow> data
           | Some n \<Rightarrow> ObjectType_unserialize_effect (objects sc) root_object data (path @ [KStr n])))"

section \<open>The claims\<close>

text \<open>
  Claim C1 (every typed value that \<^verbatim>\<open>validate\<close> rejects with a constraint error, in particular
  one with two conflicting properties both present, is rejected by \<^verbatim>\<open>serialize\<close> too).
  \<^verbatim>\<open>ObjectType.serialize\<close> runs no conflict check: on an object whose property \<open>x\<close> declares
  a conflict with \<open>y\<close>, and a value with both fields set, \<^verbatim>\<open>validate\<close> raises the
  constraint error and \<^verbatim>\<open>serialize\<close> returns the wire mapping with both keys.
\<close>

theorem C1_serialize_accepts_conflicting_fields:
  "ObjectType_validate []
     (ObjectType (PyCls ''C'' [(''x'', Some PNone), (''y'', Some PNone)])
        [(''x'', PropertyType (IntType None None) False [] [] [''y''] []),
         (''y'', PropertyType (IntType None None) False [] [] [] [])] None)
     (PObj ''C'' [(''x'', PInt 1), (''y'', PInt 2)]) []
   = Inl (ConstraintException [KStr ''x''] ''Field conflicts with y'')
   \<and> ObjectType_serialize []
     (ObjectType (PyCls ''C'' [(''x'', Some PNone), (''y'', Some PNone)])
        [(''x'', PropertyType (IntType None None) False [] [] [''y''] []),
         (''y'', PropertyType (IntType None None) False [] [] [] [])] None)
     (PObj ''C'' [(''x'', PInt 1), (''y'', PInt 2)]) []
   = Inr [(KStr ''x'', PInt 1), (KStr ''y'', PInt 2)]"
  by (simp add: ObjectType_validate_property_def field_id_of_def IntType_validate_def
        IntType_serialize_def str_mem_def key_eq_def)

text \<open>
  Claim C2 (with \<open>a\<close> declared \<^verbatim>\<open>required_if=[b]\<close>: omitting both passes, \<open>b\<close> without \<open>a\<close>
  fails, both passes; in \<^verbatim>\<open>unserialize\<close> and in \<^verbatim>\<open>validate\<close>).
  On a typed value \<^verbatim>\<open>_validate_not_set\<close> tests \<^verbatim>\<open>getattr(data, required_if) is None\<close>: it
  takes the sibling for set exactly when it is not.  So \<^verbatim>\<open>validate\<close> rejects the value in
  which both fields are \<^verbatim>\<open>None\<close>, with the reason that \<open>b\<close> is set.
\<close>

theorem C2_validate_rejects_both_omitted:
  "ObjectType_validate []
     (ObjectType (PyCls ''C'' [(''a'', Some PNone), (''b'', Some PNone)])
        [(''a'', PropertyType (IntType None None) False [''b''] [] [] []),
         (''b'', PropertyType (IntType None None) False [] [] [] [])] None)
     (PObj ''C'' [(''a'', PNone), (''b'', PNone)]) []
   = Inl (ConstraintException [KStr ''a'']
           (''This field is required because '' @ quoted ''b'' @ '' is set''))"
  by (simp add: ObjectType_validate_property_def field_id_of_def ObjectType_validate_not_set_def
        required_if_holds_def)

lemma init_fields_defaults:
  "\<forall>(f, d) \<in> set fs. d \<noteq> None \<Longrightarrow> init_fields fs kwargs \<noteq> None"
  by (induction fs) (auto split: option.splits)

lemma py_construct_defaults:
  "\<forall>(f, d) \<in> set (cls_fields c). d \<noteq> None \<Longrightarrow> set (map fst kwargs) \<subseteq> set (map fst (cls_fields c)) \<Longrightarrow>
   \<not> isl (py_construct c kwargs)"
  using init_fields_defaults [of "cls_fields c" kwargs]
  by (auto simp: py_construct_def split: option.splits)

text \<open>
  Claim C3 (two optional properties \<open>X\<close> and \<open>Y\<close>, \<open>X\<close> declares \<^verbatim>\<open>conflicts=[Y]\<close>: only \<open>X\<close> or
  only \<open>Y\<close> passes \<^verbatim>\<open>unserialize\<close> and \<^verbatim>\<open>validate\<close>; both raise a constraint error in
  \<^verbatim>\<open>unserialize\<close> and in \<^verbatim>\<open>validate\<close>, whichever of the two declares the conflict).
  The object declares the two properties in either order, so that the one with the conflict
  comes first or second; the supplied values are valid for the types of their properties, and
  every field of the host class has a default.
\<close>

theorem C3_conflicts:
  fixes tx ty :: node and X Y ox oy :: string
  defines "px \<equiv> PropertyType tx False [] [] [Y] ox"
    and "py \<equiv> PropertyType ty False [] [] [] oy"
  assumes props: "props = [(X, px), (Y, py)] \<or> props = [(Y, py), (X, px)]"
    and distinct: "X \<noteq> Y"
    and fields: "set (map fst (cls_fields c)) = {field_id_of X px, field_id_of Y py}"
    and defaults: "\<forall>(f, d) \<in> set (cls_fields c). d \<noteq> None"
  shows "(vx \<noteq> PNone \<and> unserialize objs tx vx (path @ [KStr X]) = Inr rx \<longrightarrow>
            ObjectType_unserialize objs (ObjectType c props nm) (PDict [(KStr X, vx)]) path
            = py_construct c [(field_id_of X px, rx)]
          \<and> \<not> isl (py_construct c [(field_id_of X px, rx)]))
       \<and> (vy \<noteq> PNone \<and> unserialize objs ty vy (path @ [KStr Y]) = Inr ry \<longrightarrow>
            ObjectType_unserialize objs (ObjectType c props nm) (PDict [(KStr Y, vy)]) path
            = py_construct c [(field_id_of Y py, ry)]
          \<and> \<not> isl (py_construct c [(field_id_of Y py, ry)]))
       \<and> (vx \<noteq> PNone \<and> vy \<noteq> PNone
          \<and> unserialize objs tx vx (path @ [KStr X]) = Inr rx
          \<and> unserialize objs ty vy (path @ [KStr Y]) = Inr ry \<longrightarrow>
            ObjectType_unserialize objs (ObjectType c props nm)
              (PDict [(KStr X, vx), (KStr Y, vy)]) path
            = Inl (ConstraintException (path @ [KStr X])
                     (''Field conflicts '' @ quoted Y @ '', set one of the two, not both'')))
       \<and> (map_of fs (field_id_of X px) = Some wx \<and> wx \<noteq> PNone
          \<and> map_of fs (field_id_of Y py) = Some PNone
          \<and> validate objs tx wx (path @ [KStr X]) = Inr () \<longrightarrow>
            ObjectType_validate objs (ObjectType c props nm) (PObj (cls_name c) fs) path = Inr ())
       \<and> (map_of gs (field_id_of X px) = Some PNone
          \<and> map_of gs (field_id_of Y py) = Some wy \<and> wy \<noteq> PNone
          \<and> validate objs ty wy (path @ [KStr Y]) = Inr () \<longrightarrow>
            ObjectType_validate objs (ObjectType c props nm) (PObj (cls_name c) gs) path = Inr ())
       \<and> (map_of hs (field_id_of X px) = Some wx \<and> wx \<noteq> PNone
          \<and> map_of hs (field_id_of Y py) = Some wy \<and> wy \<noteq> PNone
          \<and> validate objs tx wx (path @ [KStr X]) = Inr ()
          \<and> validate objs ty wy (path @ [KStr Y]) = Inr () \<longrightarrow>
            ObjectType_validate objs (ObjectType c props nm) (PObj (cls_name c) hs) path
            = Inl (ConstraintException (path @ [KStr X]) (''Field conflicts with '' @ Y)))"
proof -
  note defs = px_def py_def key_eq_def str_mem_def py_item_def dict_mem_def
    ObjectType_validate_not_set_def ObjectType_validate_property_def
  have only_x: "ObjectType_unserialize objs (ObjectType c props nm) (PDict [(KStr X, vx)]) path
            = py_construct c [(field_id_of X px, rx)]"
    if "vx \<noteq> PNone" "unserialize objs tx vx (path @ [KStr X]) = Inr rx"
    using props distinct that by (auto simp: defs)
  have only_y: "ObjectType_unserialize objs (ObjectType c props nm) (PDict [(KStr Y, vy)]) path
            = py_construct c [(field_id_of Y py, ry)]"
    if "vy \<noteq> PNone" "unserialize objs ty vy (path @ [KStr Y]) = Inr ry"
    using props distinct that by (auto simp: defs)
  have both: "ObjectType_unserialize objs (ObjectType c props nm)
              (PDict [(KStr X, vx), (KStr Y, vy)]) path
            = Inl (ConstraintException (path @ [KStr X])
                     (''Field conflicts '' @ quoted Y @ '', set one of the two, not both''))"
    if "vx \<noteq> PNone" "vy \<noteq> PNone" "unserialize objs tx vx (path @ [KStr X]) = Inr rx"
       "unserialize objs ty vy (path @ [KStr Y]) = Inr ry"
    using props distinct that by (auto simp: defs)
  have ok_x: "\<not> isl (py_construct c [(field_id_of X px, rx)])"
    using fields by (intro py_construct_defaults defaults) simp
  have ok_y: "\<not> isl (py_construct c [(field_id_of Y py, ry)])"
    using fields by (intro py_construct_defaults defaults) simp
  have v_only_x: "ObjectType_validate objs (ObjectType c props nm) (PObj (cls_name c) fs) path = Inr ()"
    if "map_of fs (field_id_of X px) = Some wx" "wx \<noteq> PNone"
       "map_of fs (field_id_of Y py) = Some PNone"
       "validate objs tx wx (path @ [KStr X]) = Inr ()"
    using props distinct that by (auto simp: defs)
  have v_only_y: "ObjectType_validate objs (ObjectType c props nm) (PObj (cls_name c) gs) path = Inr ()"
    if "map_of gs (field_id_of X px) = Some PNone"
       "map_of gs (field_id_of Y py) = Some wy" "wy \<noteq> PNone"
       "validate objs ty wy (path @ [KStr Y]) = Inr ()"
    using props distinct that by (auto simp: defs)
  have v_both: "ObjectType_validate objs (ObjectType c props nm) (PObj (cls_name c) hs) path
            = Inl (ConstraintException (path @ [KStr X]) (''Field conflicts with '' @ Y))"
    if "map_of hs (field_id_of X px) = Some wx" "wx \<noteq> PNone"
       "map_of hs (field_id_of Y py) = Some wy" "wy \<noteq> PNone"
       "validate objs tx wx (path @ [KStr X]) = Inr ()"
       "validate objs ty wy (path @ [KStr Y]) = Inr ()"
    using props distinct that by (auto simp: defs)
  from only_x only_y both ok_x ok_y v_only_x v_only_y v_both show ?thesis by blast
qed

theorem C3_conflicts_witness:
  "ObjectType_unserialize []
     (ObjectType (PyCls ''C'' [(''y'', Some PNone), (''x'', Some PNone)])
        [(''y'', PropertyType (IntType None None) False [] [] [] []),
         (''x'', PropertyType (IntType None None) False [] [] [''y''] [])] None)
     (PDict [(KStr ''x'', PInt 1)]) []
   = Inr (PObj ''C'' [(''y'', PNone), (''x'', PInt 1)])
   \<and> ObjectType_unserialize []
     (ObjectType (PyCls ''C'' [(''y'', Some PNone), (''x'', Some PNone)])
        [(''y'', PropertyType (IntType None None) False [] [] [] []),
         (''x'', PropertyType (IntType None None) False [] [] [''y''] [])] None)
     (PDict [(KStr ''y'', PInt 2)]) []
   = Inr (PObj ''C'' [(''y'', PInt 2), (''x'', PNone)])
   \<and> ObjectType_unserialize []
     (ObjectType (PyCls ''C'' [(''y'', Some PNone), (''x'', Some PNone)])
        [(''y'', PropertyType (IntType None None) False [] [] [] []),
         (''x'', PropertyType (IntType None None) False [] [] [''y''] [])] None)
     (PDict [(KStr ''x'', PInt 1), (KStr ''y'', PInt 2)]) []
   = Inl (ConstraintException [KStr ''x'']
           (''Field conflicts '' @ quoted ''y'' @ '', set one of the two, not both''))
   \<and> ObjectType_validate []
     (ObjectType (PyCls ''C'' [(''y'', Some PNone), (''x'', Some PNone)])
        [(''y'', PropertyType (IntType None None) False [] [] [] []),
         (''x'', PropertyType (IntType None None) False [] [] [''y''] [])] None)
     (PObj ''C'' [(''y'', PNone), (''x'', PInt 1)]) []
   = Inr ()
   \<and> ObjectType_validate []
     (ObjectType (PyCls ''C'' [(''y'', Some PNone), (''x'', Some PNone)])
        [(''y'', PropertyType (IntType None None) False [] [] [] []),
         (''x'', PropertyType (IntType None None) False [] [] [''y''] [])] None)
     (PObj ''C'' [(''y'', PInt 2), (''x'', PNone)]) []
   = Inr ()
   \<and> ObjectType_validate []
     (ObjectType (PyCls ''C'' [(''y'', Some PNone), (''x'', Some PNone)])
        [(''y'', PropertyType (IntType None None) False [] [] [] []),
         (''x'', PropertyType (IntType None None) False [] [] [''y''] [])] None)
     (PObj ''C'' [(''y'', PInt 2), (''x'', PInt 1)]) []
   = Inl (ConstraintException [KStr ''x''] ''Field conflicts with y'')"
proof -
  have fields: "set (map fst (cls_fields (PyCls ''C'' [(''y'', Some PNone), (''x'', Some PNone)])))
      = {field_id_of ''x'' (PropertyType (IntType None None) False [] [] [''y''] []),
         field_id_of ''y'' (PropertyType (IntType None None) False [] [] [] [])}"
    by (auto simp: field_id_of_def)
  have defaults: "\<forall>(f, d) \<in> set (cls_fields (PyCls ''C'' [(''y'', Some PNone), (''x'', Some PNone)])).
      d \<noteq> None"
    by simp
  have order: "[(''y'', PropertyType (IntType None None) False [] [] [] []),
                (''x'', PropertyType (IntType None None) False [] [] [''y''] [])]
             = [(''x'', PropertyType (IntType None None) False [] [] [''y''] []),
                (''y'', PropertyType (IntType None None) False [] [] [] [])]
           \<or> [(''y'', PropertyType (IntType None None) False [] [] [] []),
                (''x'', PropertyType (IntType None None) False [] [] [''y''] [])]
             = [(''y'', PropertyType (IntType None None) False [] [] [] []),
                (''x'', PropertyType (IntType None None) False [] [] [''y''] [])]"
    by simp
  have names: "''x'' \<noteq> ''y''"
    by simp
  note inst = C3_conflicts
          [where objs = "[]" and path = "[]" and nm = None
             and vx = "PInt 1" and rx = "PInt 1" and vy = "PInt 2" and ry = "PInt 2"
             and wx = "PInt 1" and wy = "PInt 2"
             and fs = "[(''y'', PNone), (''x'', PInt 1)]"
             and gs = "[(''y'', PInt 2), (''x'', PNone)]"
             and hs = "[(''y'', PInt 2), (''x'', PInt 1)]",
           OF order names fields defaults]
  from inst show ?thesis
    by (simp add: IntType_unserialize_def IntType_validate_def field_id_of_def py_construct_def)
qed

lemma map_of_first_entry:
  "k \<notin> fst ` set pre \<Longrightarrow> map_of (pre @ (k, v) # post) k = Some v"
  by (induction pre) auto

lemma find_first_entry:
  "\<forall>y \<in> set pre. \<not> P y \<Longrightarrow> P x \<Longrightarrow> List.find P (pre @ x # post) = Some x"
  by (induction pre) auto

text \<open>
  Claim C4 (a one-of string union whose member declares no property \<open>_type\<close>: decoding
  \<open>{"_type": "a", "f": 1}\<close> succeeds, the member decodes the mapping without the \<open>_type\<close>
  key, and encoding the result gives a mapping with \<open>"_type": "a"\<close> and \<open>"f": 1\<close> again).
  The member is registered under \<open>a\<close>, once, and no member before it is bound to the same
  host class; it has the single integer property \<open>f\<close>.
\<close>

theorem C4_undeclared_discriminator_round_trip:
  assumes types: "types = pre @ (''a'', member) # post"
    and key: "''a'' \<notin> fst ` set pre"
    and cls: "\<forall>(discriminator, item_schema) \<in> set pre. cls_name (cls item_schema) \<noteq> cn"
    and member: "member = ObjectType (PyCls cn [(''f'', dflt)])
                   [(''f'', PropertyType (IntType None None) req [] [] [] [])] nm"
  shows "unserialize objs (OneOfStringType types ''_type'')
           (PDict [(KStr ''_type'', PStr ''a''), (KStr ''f'', PInt 1)]) path
         = ObjectType_unserialize objs member (PDict [(KStr ''f'', PInt 1)]) path
       \<and> ObjectType_unserialize objs member (PDict [(KStr ''f'', PInt 1)]) path
         = Inr (PObj cn [(''f'', PInt 1)])
       \<and> serialize objs (OneOfStringType types ''_type'') (PObj cn [(''f'', PInt 1)]) path'
         = Inr (PDict [(KStr ''f'', PInt 1), (KStr ''_type'', PStr ''a'')])"
proof -
  have lookup: "map_of types ''a'' = Some member"
    unfolding types using key by (rule map_of_first_entry)
  have strip: "unserialize objs (OneOfStringType types ''_type'')
           (PDict [(KStr ''_type'', PStr ''a''), (KStr ''f'', PInt 1)]) path
         = ObjectType_unserialize objs member (PDict [(KStr ''f'', PInt 1)]) path"
    using lookup by (simp add: member key_eq_def str_mem_def)
  have decode: "ObjectType_unserialize objs member (PDict [(KStr ''f'', PInt 1)]) path
         = Inr (PObj cn [(''f'', PInt 1)])"
    by (simp add: member key_eq_def str_mem_def py_item_def IntType_unserialize_def
          IntType_validate_def field_id_of_def py_construct_def)
  have "\<forall>y \<in> set pre. \<not> (\<lambda>(discriminator, item_schema).
            py_isinstance (PObj cn [(''f'', PInt 1)]) (cls item_schema)) y"
    using cls by auto
  then have found: "List.find (\<lambda>(discriminator, item_schema).
            py_isinstance (PObj cn [(''f'', PInt 1)]) (cls item_schema)) types
          = Some (''a'', member)"
    unfolding types by (rule find_first_entry) (simp add: member)
  have encode: "serialize objs (OneOfStringType types ''_type'') (PObj cn [(''f'', PInt 1)]) path'
         = Inr (PDict [(KStr ''f'', PInt 1), (KStr ''_type'', PStr ''a'')])"
    using found
    by (simp add: member str_mem_def ObjectType_validate_property_def field_id_of_def
          IntType_serialize_def IntType_validate_def key_eq_def)
  from strip decode encode show ?thesis by simp
qed

theorem C4_undeclared_discriminator_round_trip_witness:
  "unserialize []
     (OneOfStringType
        [(''b'', ObjectType (PyCls ''B'' [(''g'', None)])
                   [(''g'', PropertyType (StringType None None None) True [] [] [] [])] None),
         (''a'', ObjectType (PyCls ''A'' [(''f'', None)])
                   [(''f'', PropertyType (IntType None None) True [] [] [] [])] None)]
        ''_type'')
     (PDict [(KStr ''_type'', PStr ''a''), (KStr ''f'', PInt 1)]) []
   = Inr (PObj ''A'' [(''f'', PInt 1)])
   \<and> serialize []
     (OneOfStringType
        [(''b'', ObjectType (PyCls ''B'' [(''g'', None)])
                   [(''g'', PropertyType (StringType None None None) True [] [] [] [])] None),
         (''a'', ObjectType (PyCls ''A'' [(''f'', None)])
                   [(''f'', PropertyType (IntType None None) True [] [] [] [])] None)]
        ''_type'')
     (PObj ''A'' [(''f'', PInt 1)]) []
   = Inr (PDict [(KStr ''f'', PInt 1), (KStr ''_type'', PStr ''a'')])"
  using C4_undeclared_discriminator_round_trip
          [of "[(''b'', ObjectType (PyCls ''B'' [(''g'', None)])
                   [(''g'', PropertyType (StringType None None None) True [] [] [] [])] None),
               (''a'', ObjectType (PyCls ''A'' [(''f'', None)])
                   [(''f'', PropertyType (IntType None None) True [] [] [] [])] None)]"
              "[(''b'', ObjectType (PyCls ''B'' [(''g'', None)])
                   [(''g'', PropertyType (StringType None None None) True [] [] [] [])] None)]"
              "ObjectType (PyCls ''A'' [(''f'', None)])
                   [(''f'', PropertyType (IntType None None) True [] [] [] [])] None"
              "[]" "''A''" None True None "[]" "[]" "[]"]
  by simp



text \<open>
  The condition on the root objects of the output scopes cannot be dropped.  On a schema
  whose root objects have been given a \<^verbatim>\<open>__name__\<close> from outside (the module sets none),
  the call with \<^verbatim>\<open>skip_serialization\<close> lets the constraint error of the output through as
  it is, where the call without the flag wraps it.
\<close>

lemma validation_outside_try_with_named_roots:
  "SchemaType_call
     [(''run'',
       \<lparr>handler = (\<lambda>params. Inr [PStr ''success'', PObj ''Out'' [(''n'', PNone)]]),
        input = \<lparr>root = ''In'',
                 objects = [(''In'', ObjectType (PyCls ''In'' []) [] (Some ''In''))]\<rparr>,
        outputs = [(''success'',
                    \<lparr>root = ''Out'',
                     objects = [(''Out'', ObjectType (PyCls ''Out'' [(''n'', None)])
                                  [(''n'', PropertyType (IntType None None) True [] [] [] [])]
                                  (Some ''Out''))]\<rparr>)]\<rparr>)]
     ''run'' (PDict []) True
   = Inl (ConstraintException [KStr ''Out'', KStr ''n''] ''This field is required'')
   \<and> SchemaType_call
     [(''run'',
       \<lparr>handler = (\<lambda>params. Inr [PStr ''success'', PObj ''Out'' [(''n'', PNone)]]),
        input = \<lparr>root = ''In'',
                 objects = [(''In'', ObjectType (PyCls ''In'' []) [] (Some ''In''))]\<rparr>,
        outputs = [(''success'',
                    \<lparr>root = ''Out'',
                     objects = [(''Out'', ObjectType (PyCls ''Out'' [(''n'', None)])
                                  [(''n'', PropertyType (IntType None None) True [] [] [] [])]
                                  (Some ''Out''))]\<rparr>)]\<rparr>)]
     ''run'' (PDict []) False
   = Inl (InvalidOutputException [KStr ''Out'', KStr ''n''] ''This field is required'')"
  by (simp add: SchemaType_call_def SchemaType_private_unserialize_input_def
        SchemaType_private_call_step_def SchemaType_private_serialize_output_def
        StepType_call_def ScopeType_unserialize_def ScopeType_validate_def ScopeType_serialize_def
        py_construct_def ObjectType_validate_property_def field_id_of_def
        ObjectType_validate_not_set_def)

text \<open>
  Claim C6 (every constraint error carries the full path to the offending value and a
  non-empty reason; in particular a map that violates its minimum or maximum entry count).
  \<^verbatim>\<open>MapType._validate\<close> raises \<^verbatim>\<open>ConstraintException()\<close> with no argument for both bounds:
  a map below its minimum, validated at the path \<open>settings\<close>, gives an error with the empty
  path and the empty message.
\<close>

theorem C6_map_min_error_has_no_path_and_no_reason:
  "validate [] (MapType (StringType None None None) (IntType None None) (Some 1) None)
     (PDict []) [KStr ''settings'']
   = Inl (ConstraintException [] [])"
  by (simp add: MapType_validate_own_def)

text \<open>
  Claim C7 (the three operations of a scope delegate to the root object definition, with the
  path extended by the root object's name).
  The operations read \<^verbatim>\<open>root_object.__name__\<close>, an attribute that \<^verbatim>\<open>ObjectType\<close> never
  assigns: on a scope whose root is an object definition as its constructor builds it, they
  raise \<^verbatim>\<open>AttributeError\<close> and the root object's operation does not run.
\<close>

theorem C7_scope_raises_attribute_error:
  "ScopeType_unserialize
     \<lparr>root = ''Config'',
      objects = [(''Config'', ObjectType (PyCls ''Config'' [(''n'', None)])
                   [(''n'', PropertyType (IntType None None) True [] [] [] [])] None)]\<rparr>
     (PDict [(KStr ''n'', PInt 1)]) []
   = Inl AttributeError"
  by (simp add: ScopeType_unserialize_def)

text \<open>
  Claim C8 (one-of decode coerces the discriminator value to the discriminator type, so that
  an integer is stringified and accepted; a value that matches no key raises an error whose
  message lists the valid keys).
  The code has no coercion: a discriminator value that is not a native string is refused.
  The integer 1 is refused where the string \<open>1\<close> selects the member.
\<close>

theorem C8_integer_discriminator_is_rejected:
  "unserialize []
     (OneOfStringType
        [(''1'', ObjectType (PyCls ''A'' [(''f'', None)])
                   [(''f'', PropertyType (IntType None None) True [] [] [] [])] None)]
        ''_type'')
     (PDict [(KStr ''_type'', PInt 1), (KStr ''f'', PInt 1)]) []
   = Inl (ConstraintException [KStr ''_type''] ''String required, int found'')
   \<and> unserialize []
     (OneOfStringType
        [(''1'', ObjectType (PyCls ''A'' [(''f'', None)])
                   [(''f'', PropertyType (IntType None None) True [] [] [] [])] None)]
        ''_type'')
     (PDict [(KStr ''_type'', PStr ''1''), (KStr ''f'', PInt 1)]) []
   = Inr (PObj ''A'' [(''f'', PInt 1)])"
  by (simp add: key_eq_def str_mem_def py_item_def IntType_unserialize_def IntType_validate_def
        field_id_of_def py_construct_def)

text \<open>
  Claim C8, amended: on a mapping that contains the discriminator field, one-of decode
  requires the field's value to be a native string and raises a constraint error at the
  discriminator's path for any other value; a string that is no registered key raises a
  constraint error at the same path whose message lists all the registered keys.
\<close>

theorem C8_discriminator_must_be_registered_string:
  "(dict_get kvs (KStr dfn) = Some v \<and> (\<forall>s. v \<noteq> PStr s) \<longrightarrow>
      unserialize objs (OneOfStringType types dfn) (PDict kvs) path
      = Inl (ConstraintException (path @ [KStr dfn])
               (''String required, '' @ type_name v @ '' found'')))
   \<and> (dict_get kvs (KStr dfn) = Some (PStr s) \<and> map_of types s = None \<longrightarrow>
      unserialize objs (OneOfStringType types dfn) (PDict kvs) path
      = Inl (ConstraintException (path @ [KStr dfn])
               (''Invalid value for field: '' @ quoted s @ '' expected one of: ''
                @ quoted (py_join ([CHR 0x27] @ '', '' @ [CHR 0x27]) (map fst types)))))"
  by (cases v) auto

theorem C8_discriminator_must_be_registered_string_witness:
  "unserialize []
     (OneOfStringType
        [(''a'', ObjectType (PyCls ''A'' []) [] None), (''b'', ObjectType (PyCls ''B'' []) [] None)]
        ''_type'')
     (PDict [(KStr ''_type'', PBool True)]) [KStr ''item'']
   = Inl (ConstraintException [KStr ''item'', KStr ''_type''] ''String required, bool found'')
   \<and> unserialize []
     (OneOfStringType
        [(''a'', ObjectType (PyCls ''A'' []) [] None), (''b'', ObjectType (PyCls ''B'' []) [] None)]
        ''_type'')
     (PDict [(KStr ''_type'', PStr ''c'')]) [KStr ''item'']
   = Inl (ConstraintException [KStr ''item'', KStr ''_type'']
           (''Invalid value for field: '' @ quoted ''c'' @ '' expected one of: ''
            @ quoted (''a'' @ [CHR 0x27] @ '', '' @ [CHR 0x27] @ ''b'')))"
  using C8_discriminator_must_be_registered_string
          [of "[(KStr ''_type'', PBool True)]" "''_type''" "PBool True" "[]"
              "[(''a'', ObjectType (PyCls ''A'' []) [] None), (''b'', ObjectType (PyCls ''B'' []) [] None)]"
              "[KStr ''item'']" "''c''"]
        C8_discriminator_must_be_registered_string
          [of "[(KStr ''_type'', PStr ''c'')]" "''_type''" "PStr ''c''" "[]"
              "[(''a'', ObjectType (PyCls ''A'' []) [] None), (''b'', ObjectType (PyCls ''B'' []) [] None)]"
              "[KStr ''item'']" "''c''"]
  by (simp add: key_eq_def)

text \<open>
  Claim C9 (\<^verbatim>\<open>unserialize\<close> leaves the caller's raw data unchanged: the list passed in is not
  modified and one-of decode does not remove the discriminator key from the caller's
  mapping).
  \<^verbatim>\<open>ListType.unserialize\<close> stores every decoded item into the list it was given, and
  \<^verbatim>\<open>OneOfStringType.unserialize\<close> deletes the discriminator key from the mapping it was
  given when the member does not declare it: after the call the caller's list holds the
  decoded integers, the caller's mapping has lost \<open>_type\<close>, and decoding that same mapping
  once more fails for want of the discriminator.
\<close>

theorem C9_unserialize_changes_the_callers_data:
  "unserialize_effect [] (ListType (IntType None None) None None)
     (PList [PStr ''1'', PStr ''2'']) []
   = PList [PInt 1, PInt 2]
   \<and> unserialize_effect []
     (OneOfStringType
        [(''a'', ObjectType (PyCls ''A'' [(''f'', None)])
                   [(''f'', PropertyType (IntType None None) True [] [] [] [])] None)]
        ''_type'')
     (PDict [(KStr ''_type'', PStr ''a''), (KStr ''f'', PInt 1)]) []
   = PDict [(KStr ''f'', PInt 1)]
   \<and> unserialize []
     (OneOfStringType
        [(''a'', ObjectType (PyCls ''A'' [(''f'', None)])
                   [(''f'', PropertyType (IntType None None) True [] [] [] [])] None)]
        ''_type'')
     (PDict [(KStr ''f'', PInt 1)]) []
   = Inl (ConstraintException [KStr ''_type''] ''Required discriminator field not found'')"
  by (simp add: IntType_unserialize_def IntType_validate_def py_int_def py_strip_def is_space_def
        digit_val_def key_eq_def str_mem_def py_item_def)

lemma key_eq_KStr: "key_eq a (KStr k) \<longleftrightarrow> a = KStr k"
  by (cases a) (auto simp: key_eq_def)

lemma dict_get_absent:
  "key_norm k \<notin> set (map (key_norm \<circ> fst) kvs) \<Longrightarrow> dict_get kvs k = None"
  by (induction kvs) (auto simp: key_eq_def)

lemma dict_get_dict_del:
  "distinct (map (key_norm \<circ> fst) kvs) \<Longrightarrow>
   dict_get (dict_del kvs k) k' = (if key_eq k k' then None else dict_get kvs k')"
proof (induction kvs)
  case Nil
  then show ?case by simp
next
  case (Cons e kvs)
  obtain a v where e: "e = (a, v)" by (cases e)
  show ?case
  proof (cases "key_eq a k")
    case True
    with Cons.prems e have "key_norm k \<notin> set (map (key_norm \<circ> fst) kvs)"
      by (auto simp: key_eq_def)
    then have "key_eq k k' \<Longrightarrow> dict_get kvs k' = None"
      by (intro dict_get_absent) (auto simp: key_eq_def)
    with True e show ?thesis by (auto simp: key_eq_def)
  next
    case False
    with Cons e show ?thesis by (auto simp: key_eq_def)
  qed
qed

lemma py_item_dict_del:
  assumes "distinct (map (key_norm \<circ> fst) kvs)" and "dict_get kvs (KStr k) = Some PNone"
  shows "py_item (dict_del kvs (KStr k)) name = py_item kvs name"
  using assms by (auto simp: py_item_def dict_get_dict_del key_eq_def)

lemma dict_mem_dict_del:
  assumes "distinct (map (key_norm \<circ> fst) kvs)" and "name \<noteq> k"
  shows "dict_mem (dict_del kvs (KStr k)) (KStr name) = dict_mem kvs (KStr name)"
  using assms by (auto simp: dict_mem_def dict_get_dict_del key_eq_def)

lemma find_eq_on_set: "(\<And>x. x \<in> set xs \<Longrightarrow> P x = Q x) \<Longrightarrow> List.find P xs = List.find Q xs"
  by (induction xs) auto

lemma validate_not_set_dict_del:
  assumes "distinct (map (key_norm \<circ> fst) kvs)"
    and "k \<notin> set (required_if p)" and "k \<notin> set (required_if_not p)"
  shows "ObjectType_validate_not_set (PDict (dict_del kvs (KStr k))) p path
         = ObjectType_validate_not_set (PDict kvs) p path"
proof -
  have a: "List.find (required_if_holds (PDict (dict_del kvs (KStr k)))) (required_if p)
         = List.find (required_if_holds (PDict kvs)) (required_if p)"
  proof (rule find_eq_on_set)
    fix x assume "x \<in> set (required_if p)"
    with assms have "x \<noteq> k" by auto
    with assms(1) show "required_if_holds (PDict (dict_del kvs (KStr k))) x
        = required_if_holds (PDict kvs) x"
      by (simp add: required_if_holds_def dict_mem_dict_del)
  qed
  have b: "List.find (required_if_not_holds (PDict (dict_del kvs (KStr k)))) (required_if_not p)
         = List.find (required_if_not_holds (PDict kvs)) (required_if_not p)"
  proof (rule find_eq_on_set)
    fix x assume "x \<in> set (required_if_not p)"
    with assms have "x \<noteq> k" by auto
    with assms(1) show "required_if_not_holds (PDict (dict_del kvs (KStr k))) x
        = required_if_not_holds (PDict kvs) x"
      by (simp add: required_if_not_holds_def dict_mem_dict_del)
  qed
  show ?thesis
    unfolding ObjectType_validate_not_set_def a b by (rule refl)
qed

lemma unserialize_properties_dict_del:
  assumes wf: "distinct (map (key_norm \<circ> fst) kvs)"
    and null: "dict_get kvs (KStr k) = Some PNone"
    and unnamed: "\<forall>(property_id, p) \<in> set ps.
        k \<notin> set (required_if p) \<and> k \<notin> set (required_if_not p) \<and> k \<notin> set (conflicts p)"
  shows "ObjectType_unserialize_properties objs ps (dict_del kvs (KStr k)) path kwargs
         = ObjectType_unserialize_properties objs ps kvs path kwargs"
  using unnamed
proof (induction ps arbitrary: kwargs)
  case Nil
  then show ?case by simp
next
  case (Cons e ps)
  obtain property_id p where e: "e = (property_id, p)" by (cases e)
  from Cons.prems e have p: "k \<notin> set (required_if p)" "k \<notin> set (required_if_not p)"
    "k \<notin> set (conflicts p)"
    by auto
  from Cons.prems have rest: "\<forall>(property_id, p) \<in> set ps.
        k \<notin> set (required_if p) \<and> k \<notin> set (required_if_not p) \<and> k \<notin> set (conflicts p)"
    by simp
  have c: "List.find (\<lambda>conflict. dict_mem (dict_del kvs (KStr k)) (KStr conflict)) (conflicts p)
         = List.find (\<lambda>conflict. dict_mem kvs (KStr conflict)) (conflicts p)"
  proof (rule find_eq_on_set)
    fix x assume "x \<in> set (conflicts p)"
    with p have "x \<noteq> k" by auto
    with wf show "dict_mem (dict_del kvs (KStr k)) (KStr x) = dict_mem kvs (KStr x)"
      by (simp add: dict_mem_dict_del)
  qed
  show ?case
    unfolding e ObjectType_unserialize_properties.simps
      py_item_dict_del [OF wf null] validate_not_set_dict_del [OF wf p(1) p(2)] c
      Cons.IH [OF rest]
    by (rule refl)
qed

lemma find_undeclared_dict_del:
  "\<not> Q (KStr k) \<Longrightarrow> List.find Q (map fst (dict_del kvs (KStr k))) = List.find Q (map fst kvs)"
  by (induction kvs) (auto simp: key_eq_KStr)

lemma unserialize_properties_append:
  "ObjectType_unserialize_properties objs (xs @ ys) kvs path kwargs
   = (case ObjectType_unserialize_properties objs xs kvs path kwargs of
        Inl e \<Rightarrow> Inl e
      | Inr kw \<Rightarrow> ObjectType_unserialize_properties objs ys kvs path kw)"
proof (induction xs arbitrary: kwargs)
  case Nil
  then show ?case by simp
next
  case (Cons e xs)
  obtain property_id p where e: "e = (property_id, p)" by (cases e)
  show ?case
    unfolding e append_Cons ObjectType_unserialize_properties.simps Cons.IH
    by (simp split: sum.splits option.splits)
qed

lemma unserialize_properties_not_set:
  "py_item kvs k = PNone \<Longrightarrow>
   ObjectType_unserialize_properties objs ((k, p) # rest) kvs path kwargs
   = (case ObjectType_validate_not_set (PDict kvs) p (path @ [KStr k]) of
        Inl e \<Rightarrow> Inl e
      | Inr u \<Rightarrow> ObjectType_unserialize_properties objs rest kvs path kwargs)"
  by simp

lemma unserialize_properties_at_unset:
  assumes "py_item kvs k = PNone"
  shows "ObjectType_unserialize_properties objs (pre @ (k, p) # rest) kvs path kwargs
   = (case ObjectType_unserialize_properties objs pre kvs path kwargs of
        Inl e \<Rightarrow> Inl e
      | Inr kw \<Rightarrow>
          (case ObjectType_validate_not_set (PDict kvs) p (path @ [KStr k]) of
             Inl e \<Rightarrow> Inl e
           | Inr u \<Rightarrow> ObjectType_unserialize_properties objs rest kvs path kw))"
  unfolding unserialize_properties_append unserialize_properties_not_set [OF assms]
  by (rule refl)

text \<open>
  Claim C10 (\<^verbatim>\<open>ObjectType.unserialize\<close> treats a key whose value is \<^verbatim>\<open>None\<close> exactly like an
  omitted key).
  The rules of the sibling properties test \<^verbatim>\<open>required_if in data\<close> and \<^verbatim>\<open>conflict in data\<close>,
  which hold of a key with the value \<^verbatim>\<open>None\<close>: with \<open>a\<close> declared \<^verbatim>\<open>required_if=[b]\<close>, the
  mapping \<open>{"b": None}\<close> is refused and the empty mapping decodes.
\<close>

theorem C10_null_key_still_counts_for_siblings:
  "ObjectType_unserialize []
     (ObjectType (PyCls ''C'' [(''a'', Some PNone), (''b'', Some PNone)])
        [(''a'', PropertyType (IntType None None) False [''b''] [] [] []),
         (''b'', PropertyType (IntType None None) False [] [] [] [])] None)
     (PDict [(KStr ''b'', PNone)]) []
   = Inl (ConstraintException [KStr ''a'']
           (''This field is required because '' @ quoted ''b'' @ '' is set''))
   \<and> ObjectType_unserialize []
     (ObjectType (PyCls ''C'' [(''a'', Some PNone), (''b'', Some PNone)])
        [(''a'', PropertyType (IntType None None) False [''b''] [] [] []),
         (''b'', PropertyType (IntType None None) False [] [] [] [])] None)
     (PDict []) []
   = Inr (PObj ''C'' [(''a'', PNone), (''b'', PNone)])"
  by (simp add: py_item_def key_eq_def str_mem_def ObjectType_validate_not_set_def
        required_if_holds_def dict_mem_def py_construct_def)

text \<open>
  Claim C10, amended: for every declared property, \<^verbatim>\<open>unserialize\<close> treats a key whose value
  is \<^verbatim>\<open>None\<close> like an omitted key as far as that property goes.  Its turn in the loop over
  the properties is the one of an absent property, for the null key as for the omitted one:
  the requiredness rules of \<^verbatim>\<open>_validate_not_set\<close> run, and the loop goes on with the keyword
  arguments it had.  So the value is not decoded and the constructor does not get the key:
  the type, the field name and the conflicts of the property play no part in the result.
  And when no property of the object names the key in its \<^verbatim>\<open>required_if\<close>,
  \<^verbatim>\<open>required_if_not\<close> or \<^verbatim>\<open>conflicts\<close>, the result, value or error, is the one on the mapping
  without the key (a dict: no two of its keys are equal).
\<close>

theorem C10_null_key_like_omitted_key:
  assumes null: "dict_get kvs (KStr k) = Some PNone"
    and omitted: "dict_get kvs0 (KStr k) = None"
    and props: "props = pre @ (k, PropertyType t rq ri rn cf ov) # rest"
  shows "ObjectType_unserialize_properties objs props kvs path kwargs
         = (case ObjectType_unserialize_properties objs pre kvs path kwargs of
              Inl e \<Rightarrow> Inl e
            | Inr kw \<Rightarrow>
                (case ObjectType_validate_not_set (PDict kvs) (PropertyType t rq ri rn cf ov)
                        (path @ [KStr k]) of
                   Inl e \<Rightarrow> Inl e
                 | Inr u \<Rightarrow> ObjectType_unserialize_properties objs rest kvs path kw))
       \<and> ObjectType_unserialize_properties objs props kvs0 path kwargs
         = (case ObjectType_unserialize_properties objs pre kvs0 path kwargs of
              Inl e \<Rightarrow> Inl e
            | Inr kw \<Rightarrow>
                (case ObjectType_validate_not_set (PDict kvs0) (PropertyType t rq ri rn cf ov)
                        (path @ [KStr k]) of
                   Inl e \<Rightarrow> Inl e
                 | Inr u \<Rightarrow> ObjectType_unserialize_properties objs rest kvs0 path kw))
       \<and> ObjectType_unserialize objs (ObjectType c props nm) (PDict kvs) path
         = ObjectType_unserialize objs
             (ObjectType c (pre @ (k, PropertyType t' rq ri rn cf' ov') # rest) nm) (PDict kvs) path
       \<and> ((\<forall>(property_id, p) \<in> set props.
              k \<notin> set (required_if p) \<and> k \<notin> set (required_if_not p) \<and> k \<notin> set (conflicts p))
            \<and> distinct (map (key_norm \<circ> fst) kvs) \<longrightarrow>
           ObjectType_unserialize objs (ObjectType c props nm) (PDict kvs) path
           = ObjectType_unserialize objs (ObjectType c props nm) (PDict (dict_del kvs (KStr k))) path)"
proof -
  have unset: "py_item kvs k = PNone" "py_item kvs0 k = PNone"
    using null omitted by (simp_all add: py_item_def)
  have turn: "ObjectType_unserialize_properties objs props kvs path kwargs
         = (case ObjectType_unserialize_properties objs pre kvs path kwargs of
              Inl e \<Rightarrow> Inl e
            | Inr kw \<Rightarrow>
                (case ObjectType_validate_not_set (PDict kvs) (PropertyType t rq ri rn cf ov)
                        (path @ [KStr k]) of
                   Inl e \<Rightarrow> Inl e
                 | Inr u \<Rightarrow> ObjectType_unserialize_properties objs rest kvs path kw))"
    unfolding props by (rule unserialize_properties_at_unset [OF unset(1)])
  have turn0: "ObjectType_unserialize_properties objs props kvs0 path kwargs
         = (case ObjectType_unserialize_properties objs pre kvs0 path kwargs of
              Inl e \<Rightarrow> Inl e
            | Inr kw \<Rightarrow>
                (case ObjectType_validate_not_set (PDict kvs0) (PropertyType t rq ri rn cf ov)
                        (path @ [KStr k]) of
                   Inl e \<Rightarrow> Inl e
                 | Inr u \<Rightarrow> ObjectType_unserialize_properties objs rest kvs0 path kw))"
    unfolding props by (rule unserialize_properties_at_unset [OF unset(2)])
  have rules: "ObjectType_validate_not_set (PDict kvs) (PropertyType t' rq ri rn cf' ov') (path @ [KStr k])
         = ObjectType_validate_not_set (PDict kvs) (PropertyType t rq ri rn cf ov) (path @ [KStr k])"
    unfolding ObjectType_validate_not_set_def property.sel by (rule refl)
  have loops: "ObjectType_unserialize_properties objs
           (pre @ (k, PropertyType t' rq ri rn cf' ov') # rest) kvs path []
         = ObjectType_unserialize_properties objs props kvs path []"
    unfolding props unserialize_properties_at_unset [OF unset(1)] rules by (rule refl)
  have names: "map fst (pre @ (k, PropertyType t' rq ri rn cf' ov') # rest) = map fst props"
    unfolding props by simp
  have other: "ObjectType_unserialize objs (ObjectType c props nm) (PDict kvs) path
         = ObjectType_unserialize objs
             (ObjectType c (pre @ (k, PropertyType t' rq ri rn cf' ov') # rest) nm) (PDict kvs) path"
    unfolding ObjectType_unserialize.simps pyval.case str_mem_def names loops by (rule refl)
  have whole: "ObjectType_unserialize objs (ObjectType c props nm) (PDict kvs) path
           = ObjectType_unserialize objs (ObjectType c props nm) (PDict (dict_del kvs (KStr k))) path"
    if unnamed: "\<forall>(property_id, p) \<in> set props.
              k \<notin> set (required_if p) \<and> k \<notin> set (required_if_not p) \<and> k \<notin> set (conflicts p)"
      and wf: "distinct (map (key_norm \<circ> fst) kvs)"
  proof -
    have "str_mem props k"
      unfolding props by (simp add: str_mem_def)
    then have "\<not> (\<lambda>key. \<not> (case key of KStr s \<Rightarrow> str_mem props s | _ \<Rightarrow> False)) (KStr k)"
      by simp
    then have keys: "List.find (\<lambda>key. \<not> (case key of KStr s \<Rightarrow> str_mem props s | _ \<Rightarrow> False))
                       (map fst (dict_del kvs (KStr k)))
                   = List.find (\<lambda>key. \<not> (case key of KStr s \<Rightarrow> str_mem props s | _ \<Rightarrow> False))
                       (map fst kvs)"
      by (rule find_undeclared_dict_del)
    show ?thesis
      unfolding ObjectType_unserialize.simps pyval.case keys
        unserialize_properties_dict_del [OF wf null unnamed]
      by (rule refl)
  qed
  from turn turn0 other whole show ?thesis by blast
qed

theorem C10_null_key_like_omitted_key_witness:
  "ObjectType_unserialize []
     (ObjectType (PyCls ''C'' [(''a'', Some PNone), (''b'', Some (PInt 7))])
        [(''a'', PropertyType (IntType None None) False [''b''] [] [] []),
         (''b'', PropertyType (IntType None None) False [] [] [] [])] None)
     (PDict [(KStr ''a'', PInt 1), (KStr ''b'', PNone)]) []
   = ObjectType_unserialize []
     (ObjectType (PyCls ''C'' [(''a'', Some PNone), (''b'', Some (PInt 7))])
        [(''a'', PropertyType (IntType None None) False [''b''] [] [] []),
         (''b'', PropertyType (ListType BoolType None None) False [] [] [''a''] ''other'')] None)
     (PDict [(KStr ''a'', PInt 1), (KStr ''b'', PNone)]) []
   \<and> ObjectType_unserialize []
     (ObjectType (PyCls ''C'' [(''a'', Some PNone), (''b'', Some (PInt 7))])
        [(''a'', PropertyType (IntType None None) False [''b''] [] [] []),
         (''b'', PropertyType (IntType None None) False [] [] [] [])] None)
     (PDict [(KStr ''a'', PInt 1), (KStr ''b'', PNone)]) []
   = Inr (PObj ''C'' [(''a'', PInt 1), (''b'', PInt 7)])
   \<and> ObjectType_unserialize []
     (ObjectType (PyCls ''C'' [(''a'', None), (''b'', Some (PInt 7))])
        [(''a'', PropertyType (IntType None None) True [] [] [] []),
         (''b'', PropertyType (IntType None None) False [] [] [] [])] None)
     (PDict [(KStr ''a'', PInt 1), (KStr ''b'', PNone)]) []
   = ObjectType_unserialize []
     (ObjectType (PyCls ''C'' [(''a'', None), (''b'', Some (PInt 7))])
        [(''a'', PropertyType (IntType None None) True [] [] [] []),
         (''b'', PropertyType (IntType None None) False [] [] [] [])] None)
     (PDict [(KStr ''a'', PInt 1)]) []
   \<and> ObjectType_unserialize []
     (ObjectType (PyCls ''C'' [(''a'', None), (''b'', Some (PInt 7))])
        [(''a'', PropertyType (IntType None None) True [] [] [] []),
         (''b'', PropertyType (IntType None None) False [] [] [] [])] None)
     (PDict [(KStr ''a'', PInt 1)]) []
   = Inr (PObj ''C'' [(''a'', PInt 1), (''b'', PInt 7)])"
proof -
  have null: "dict_get [(KStr ''a'', PInt 1), (KStr ''b'', PNone)] (KStr ''b'') = Some PNone"
    by (simp add: key_eq_def)
  have omitted: "dict_get [(KStr ''a'', PInt 1)] (KStr ''b'') = None"
    by (simp add: key_eq_def)
  have named: "[(''a'', PropertyType (IntType None None) False [''b''] [] [] []),
                (''b'', PropertyType (IntType None None) False [] [] [] [])]
             = [(''a'', PropertyType (IntType None None) False [''b''] [] [] [])]
               @ (''b'', PropertyType (IntType None None) False [] [] [] []) # []"
    by simp
  have unnamed: "[(''a'', PropertyType (IntType None None) True [] [] [] []),
                  (''b'', PropertyType (IntType None None) False [] [] [] [])]
               = [(''a'', PropertyType (IntType None None) True [] [] [] [])]
                 @ (''b'', PropertyType (IntType None None) False [] [] [] []) # []"
    by simp
  note sibling = C10_null_key_like_omitted_key
      [where objs = "[]" and path = "[]" and kwargs = "[]" and nm = None
         and c = "PyCls ''C'' [(''a'', Some PNone), (''b'', Some (PInt 7))]"
         and t' = "ListType BoolType None None" and cf' = "[''a'']" and ov' = "''other''",
       OF null omitted named]
  note alone = C10_null_key_like_omitted_key
      [where objs = "[]" and path = "[]" and kwargs = "[]" and nm = None
         and c = "PyCls ''C'' [(''a'', None), (''b'', Some (PInt 7))]"
         and t' = "IntType None None" and cf' = "[]" and ov' = "[]",
       OF null omitted unnamed]
  have del: "dict_del [(KStr ''a'', PInt 1), (KStr ''b'', PNone)] (KStr ''b'') = [(KStr ''a'', PInt 1)]"
    by (simp add: key_eq_def)
  have first: "ObjectType_unserialize []
     (ObjectType (PyCls ''C'' [(''a'', Some PNone), (''b'', Some (PInt 7))])
        [(''a'', PropertyType (IntType None None) False [''b''] [] [] []),
         (''b'', PropertyType (IntType None None) False [] [] [] [])] None)
     (PDict [(KStr ''a'', PInt 1), (KStr ''b'', PNone)]) []
   = Inr (PObj ''C'' [(''a'', PInt 1), (''b'', PInt 7)])"
    by (simp add: py_item_def key_eq_def str_mem_def dict_mem_def ObjectType_validate_not_set_def
          IntType_unserialize_def IntType_validate_def field_id_of_def py_construct_def)
  have second: "ObjectType_unserialize []
     (ObjectType (PyCls ''C'' [(''a'', None), (''b'', Some (PInt 7))])
        [(''a'', PropertyType (IntType None None) True [] [] [] []),
         (''b'', PropertyType (IntType None None) False [] [] [] [])] None)
     (PDict [(KStr ''a'', PInt 1)]) []
   = Inr (PObj ''C'' [(''a'', PInt 1), (''b'', PInt 7)])"
    by (simp add: py_item_def key_eq_def str_mem_def ObjectType_validate_not_set_def
          IntType_unserialize_def IntType_validate_def field_id_of_def py_construct_def)
  from sibling have a: "ObjectType_unserialize []
     (ObjectType (PyCls ''C'' [(''a'', Some PNone), (''b'', Some (PInt 7))])
        [(''a'', PropertyType (IntType None None) False [''b''] [] [] []),
         (''b'', PropertyType (IntType None None) False [] [] [] [])] None)
     (PDict [(KStr ''a'', PInt 1), (KStr ''b'', PNone)]) []
   = ObjectType_unserialize []
     (ObjectType (PyCls ''C'' [(''a'', Some PNone), (''b'', Some (PInt 7))])
        [(''a'', PropertyType (IntType None None) False [''b''] [] [] []),
         (''b'', PropertyType (ListType BoolType None None) False [] [] [''a''] ''other'')] None)
     (PDict [(KStr ''a'', PInt 1), (KStr ''b'', PNone)]) []"
    by simp
  from alone have b: "ObjectType_unserialize []
     (ObjectType (PyCls ''C'' [(''a'', None), (''b'', Some (PInt 7))])
        [(''a'', PropertyType (IntType None None) True [] [] [] []),
         (''b'', PropertyType (IntType None None) False [] [] [] [])] None)
     (PDict [(KStr ''a'', PInt 1), (KStr ''b'', PNone)]) []
   = ObjectType_unserialize []
     (ObjectType (PyCls ''C'' [(''a'', None), (''b'', Some (PInt 7))])
        [(''a'', PropertyType (IntType None None) True [] [] [] []),
         (''b'', PropertyType (IntType None None) False [] [] [] [])] None)
     (PDict [(KStr ''a'', PInt 1)]) []"
    unfolding del [symmetric] by simp
  from a first b second show ?thesis by simp
qed

end
